theory Spec2Isabelle
  imports Main "HOL-Library.Word"
begin

section \<open>Code lists and small value types\<close>

text \<open>
  \<^verbatim>\<open>cs::AxisDirection\<close> is a code list: its constructor is private and the only instances
  are the static members declared in \<^verbatim>\<open>coordinatesystem.hpp\<close>. One constructor stands for
  each static member, so that comparing two directions (by \<^verbatim>\<open>operator==\<close> or, as
  \<^verbatim>\<open>EllipsoidalCS::axisOrder\<close> does, by address) is equality of constructors.
\<close>

datatype AxisDirection =
    NORTH | NORTH_NORTH_EAST | NORTH_EAST | EAST_NORTH_EAST
  | EAST | EAST_SOUTH_EAST | SOUTH_EAST | SOUTH_SOUTH_EAST
  | SOUTH | SOUTH_SOUTH_WEST | SOUTH_WEST | WEST_SOUTH_WEST
  | WEST | WEST_NORTH_WEST | NORTH_WEST | NORTH_NORTH_WEST
  | UP | DOWN
  | GEOCENTRIC_X | GEOCENTRIC_Y | GEOCENTRIC_Z
  | COLUMN_POSITIVE | COLUMN_NEGATIVE | ROW_POSITIVE | ROW_NEGATIVE
  | DISPLAY_RIGHT | DISPLAY_LEFT | DISPLAY_UP | DISPLAY_DOWN
  | FORWARD | AFT | PORT | STARBOARD
  | CLOCKWISE | COUNTER_CLOCKWISE | TOWARDS | AWAY_FROM
  | FUTURE | PAST | UNSPECIFIED

text \<open>\<^verbatim>\<open>common::UnitOfMeasure::Type\<close>; the sources at hand name \<^verbatim>\<open>NONE\<close> and \<^verbatim>\<open>LINEAR\<close>.\<close>

datatype UnitType = UNKNOWN | NONE | ANGULAR | LINEAR | SCALE | TIME | PARAMETRIC

text \<open>\<^verbatim>\<open>util::IComparable::Criterion\<close>.\<close>

datatype Criterion = STRICT | EQUIVALENT

text \<open>The WKT keywords of \<^verbatim>\<open>io::WKTConstants\<close> that the coordinate system code uses.\<close>

datatype WKTConstants = AXIS | ORDER | CS | MERIDIAN | ANGLEUNIT

text \<open>
  \<^verbatim>\<open>metadata::Identifier\<close>, with the two fields read by the C interface: the code and the
  optional code space.
\<close>

record Identifier =
  code :: string
  codeSpace :: "string option"

text \<open>
  \<^verbatim>\<open>common::IdentifiedObject\<close>: the name (the description of the name identifier, read
  through \<^verbatim>\<open>nameStr()\<close>) and the list of identifiers.
\<close>

record IdentifiedObject =
  nameStr :: string
  identifiers :: "Identifier list"

text \<open>
  A measure: a number with its unit. The type \<open>'r\<close> stands for \<^verbatim>\<open>double\<close> and \<open>'u\<close> for
  \<^verbatim>\<open>common::UnitOfMeasure\<close>; the functions below only copy and compare such values.
\<close>

record ('r, 'u) Measure =
  Measure_value :: 'r
  Measure_unit :: 'u

record ('r, 'u) Meridian = IdentifiedObject +
  longitude :: "('r, 'u) Measure"

text \<open>
  \<^verbatim>\<open>CoordinateSystemAxis::Private\<close> on top of the identified object. The minimum and
  maximum values are never set by \<^verbatim>\<open>create\<close> nor read by the functions below.
\<close>

record ('r, 'u) CoordinateSystemAxis = IdentifiedObject +
  "abbreviation" :: string
  direction :: AxisDirection
  unit :: 'u
  meridian :: "('r, 'u) Meridian option"


text \<open>
  The dynamic class of a coordinate system object (the subclasses of
  \<^verbatim>\<open>cs::CoordinateSystem\<close> defined in \<^verbatim>\<open>coordinatesystem.cpp\<close>).
\<close>

datatype CSKind =
    SphericalCS | EllipsoidalCS | VerticalCS | CartesianCS | OrdinalCS | ParametricCS
  | DateTimeTemporalCS | TemporalCountCS | TemporalMeasureCS

text \<open>\<^verbatim>\<open>CoordinateSystem::Private\<close> on top of the identified object.\<close>

record ('r, 'u) CoordinateSystem = IdentifiedObject +
  axisList :: "('r, 'u) CoordinateSystemAxis list"
  kind :: CSKind

datatype AxisOrder =
    LAT_NORTH_LONG_EAST | LAT_NORTH_LONG_EAST_HEIGHT_UP
  | LONG_EAST_LAT_NORTH | LONG_EAST_LAT_NORTH_HEIGHT_UP
  | OTHER

section \<open>What the coordinate system code takes from the rest of the library\<close>

text \<open>
  \<^verbatim>\<open>coordinatesystem.cpp\<close> calls into \<^verbatim>\<open>common\<close>, \<^verbatim>\<open>util\<close> and the static tables of
  the library. Their definitions are taken as parameters, collected in one record, and
  every theorem below holds for all values of them:
  \<^item> \<open>unit_eq\<close> is \<^verbatim>\<open>UnitOfMeasure::operator==\<close> (and \<^verbatim>\<open>operator!=\<close> its negation),
    \<open>unit_type\<close> is \<^verbatim>\<open>UnitOfMeasure::type()\<close>, \<open>unit_NONE\<close> is \<^verbatim>\<open>UnitOfMeasure::NONE\<close>;
  \<^item> \<open>IdentifiedObject_isEquivalentTo\<close> is the comparison of the base class;
  \<^item> \<open>toString\<close> is the name of an axis direction (\<^verbatim>\<open>CodeList::toString()\<close>);
  \<^item> \<open>AxisDirectionWKT1_keys\<close> is the set of names registered by the constructor of
    \<^verbatim>\<open>AxisDirectionWKT1\<close>, and \<open>AxisDirectionWKT1_NORTH\<close>, \<open>AxisDirectionWKT1_OTHER\<close> are
    the names of these two static members (what their conversion to a string gives);
  \<^item> the \<^verbatim>\<open>AxisName\<close> and \<^verbatim>\<open>AxisAbbreviation\<close> string constants;
  \<^item> \<open>getWKT2Type\<close> is the virtual method of that name, by dynamic class.
\<close>

record 'u Externals =
  unit_eq :: "'u \<Rightarrow> 'u \<Rightarrow> bool"
  unit_type :: "'u \<Rightarrow> UnitType"
  unit_NONE :: 'u
  IdentifiedObject_isEquivalentTo :: "IdentifiedObject \<Rightarrow> IdentifiedObject \<Rightarrow> Criterion \<Rightarrow> bool"
  toString :: "AxisDirection \<Rightarrow> string"
  AxisDirectionWKT1_keys :: "string set"
  AxisDirectionWKT1_NORTH :: string
  AxisDirectionWKT1_OTHER :: string
  AxisName_Latitude :: string
  AxisName_Longitude :: string
  AxisName_Ellipsoidal_height :: string
  AxisName_Easting :: string
  AxisName_Northing :: string
  AxisAbbreviation_E :: string
  AxisAbbreviation_N :: string
  getWKT2Type :: "CSKind \<Rightarrow> bool \<Rightarrow> string"

section \<open>Comparison of axes\<close>

text \<open>
  The argument of \<^verbatim>\<open>isEquivalentTo\<close> is a pointer to any comparable object; the
  \<^verbatim>\<open>dynamic_cast\<close> succeeds exactly on an axis.
\<close>

datatype ('r, 'u) IComparable =
    AxisObject "('r, 'u) CoordinateSystemAxis"
  | OtherObject

definition CoordinateSystemAxis_isEquivalentTo ::
  "'u Externals \<Rightarrow> ('r, 'u) CoordinateSystemAxis \<Rightarrow> ('r, 'u) IComparable \<Rightarrow> Criterion \<Rightarrow> bool"
where
  "CoordinateSystemAxis_isEquivalentTo E this other criterion =
     (case other of
        OtherObject \<Rightarrow> False
      | AxisObject otherCSA \<Rightarrow>
          if \<not> (direction this = direction otherCSA \<and> unit_eq E (unit this) (unit otherCSA))
          then False
          else if criterion = STRICT then
            (if \<not> IdentifiedObject_isEquivalentTo E (IdentifiedObject.truncate this)
                    (IdentifiedObject.truncate otherCSA) criterion
             then False
             else if abbreviation this \<noteq> abbreviation otherCSA then False
             else True)
          else True)"

section \<open>Construction of coordinate systems\<close>

text \<open>
  A thrown C++ exception: one whose class derives from \<^verbatim>\<open>std::exception\<close>, with the
  message that \<^verbatim>\<open>what()\<close> gives, or one of any other type. A function that an exception
  may leave returns \<open>Inl\<close> of it.
\<close>

datatype cpp_exception = std_exception string | other_exception

text \<open>
  The property map given to a factory, of type \<open>'p\<close>, is read by
  \<^verbatim>\<open>IdentifiedObject::setProperties\<close>, which is not part of these sources and is a
  parameter of the factories: it gives the name and the identifiers that it installs, or
  the exception that it throws (it is declared to throw on a value of the wrong type).
  The factories build the object, call \<^verbatim>\<open>setProperties\<close> and return the object; they
  contain no \<^verbatim>\<open>throw\<close> and no test of their own.
\<close>

definition CoordinateSystemAxis_create ::
  "('p \<Rightarrow> cpp_exception + IdentifiedObject) \<Rightarrow> 'p \<Rightarrow> string \<Rightarrow> AxisDirection \<Rightarrow> 'u
     \<Rightarrow> ('r, 'u) Meridian option \<Rightarrow> cpp_exception + ('r, 'u) CoordinateSystemAxis"
where
  "CoordinateSystemAxis_create setProperties properties abbreviationIn directionIn unitIn
       meridianIn =
     (case setProperties properties of
        Inl e \<Rightarrow> Inl e
      | Inr installed \<Rightarrow>
          Inr \<lparr> nameStr = nameStr installed, identifiers = identifiers installed,
                abbreviation = abbreviationIn, direction = directionIn, unit = unitIn,
                meridian = meridianIn \<rparr>)"

text \<open>The body shared by the factories of coordinate systems, by dynamic class.\<close>

definition make_CoordinateSystem ::
  "CSKind \<Rightarrow> ('p \<Rightarrow> cpp_exception + IdentifiedObject) \<Rightarrow> 'p
     \<Rightarrow> ('r, 'u) CoordinateSystemAxis list \<Rightarrow> cpp_exception + ('r, 'u) CoordinateSystem"
where
  "make_CoordinateSystem k setProperties properties axis =
     (case setProperties properties of
        Inl e \<Rightarrow> Inl e
      | Inr installed \<Rightarrow>
          Inr \<lparr> nameStr = nameStr installed, identifiers = identifiers installed,
                axisList = axis, kind = k \<rparr>)"

definition EllipsoidalCS_create ::
  "('p \<Rightarrow> cpp_exception + IdentifiedObject) \<Rightarrow> 'p
     \<Rightarrow> ('r, 'u) CoordinateSystemAxis \<Rightarrow> ('r, 'u) CoordinateSystemAxis
     \<Rightarrow> cpp_exception + ('r, 'u) CoordinateSystem"
where
  "EllipsoidalCS_create setProperties properties axis1 axis2 =
     make_CoordinateSystem EllipsoidalCS setProperties properties [axis1, axis2]"

definition EllipsoidalCS_create3 ::
  "('p \<Rightarrow> cpp_exception + IdentifiedObject) \<Rightarrow> 'p
     \<Rightarrow> ('r, 'u) CoordinateSystemAxis \<Rightarrow> ('r, 'u) CoordinateSystemAxis
     \<Rightarrow> ('r, 'u) CoordinateSystemAxis \<Rightarrow> cpp_exception + ('r, 'u) CoordinateSystem"
where
  "EllipsoidalCS_create3 setProperties properties axis1 axis2 axis3 =
     make_CoordinateSystem EllipsoidalCS setProperties properties [axis1, axis2, axis3]"

definition CartesianCS_create ::
  "('p \<Rightarrow> cpp_exception + IdentifiedObject) \<Rightarrow> 'p
     \<Rightarrow> ('r, 'u) CoordinateSystemAxis \<Rightarrow> ('r, 'u) CoordinateSystemAxis
     \<Rightarrow> cpp_exception + ('r, 'u) CoordinateSystem"
where
  "CartesianCS_create setProperties properties axis1 axis2 =
     make_CoordinateSystem CartesianCS setProperties properties [axis1, axis2]"

definition CartesianCS_create3 ::
  "('p \<Rightarrow> cpp_exception + IdentifiedObject) \<Rightarrow> 'p
     \<Rightarrow> ('r, 'u) CoordinateSystemAxis \<Rightarrow> ('r, 'u) CoordinateSystemAxis
     \<Rightarrow> ('r, 'u) CoordinateSystemAxis \<Rightarrow> cpp_exception + ('r, 'u) CoordinateSystem"
where
  "CartesianCS_create3 setProperties properties axis1 axis2 axis3 =
     make_CoordinateSystem CartesianCS setProperties properties [axis1, axis2, axis3]"

definition OrdinalCS_create ::
  "('p \<Rightarrow> cpp_exception + IdentifiedObject) \<Rightarrow> 'p
     \<Rightarrow> ('r, 'u) CoordinateSystemAxis list \<Rightarrow> cpp_exception + ('r, 'u) CoordinateSystem"
where
  "OrdinalCS_create setProperties properties axisIn =
     make_CoordinateSystem OrdinalCS setProperties properties axisIn"

text \<open>
  The invariant of the specification, in its words: a Cartesian system has 2 or 3 axes,
  all in length units; an ellipsoidal system has 2 angular axes, or 2 angular axes and
  an up or down axis in a length unit.
\<close>

definition spec_CartesianCS_invariant :: "'u Externals \<Rightarrow> ('r, 'u) CoordinateSystem \<Rightarrow> bool" where
  "spec_CartesianCS_invariant E cs =
     ((length (axisList cs) = 2 \<or> length (axisList cs) = 3) \<and>
      list_all (\<lambda>a. unit_type E (unit a) = LINEAR) (axisList cs))"

definition spec_EllipsoidalCS_invariant :: "'u Externals \<Rightarrow> ('r, 'u) CoordinateSystem \<Rightarrow> bool" where
  "spec_EllipsoidalCS_invariant E cs =
     (case axisList cs of
        [a, b] \<Rightarrow> unit_type E (unit a) = ANGULAR \<and> unit_type E (unit b) = ANGULAR
      | [a, b, c] \<Rightarrow>
          unit_type E (unit a) = ANGULAR \<and> unit_type E (unit b) = ANGULAR \<and>
          unit_type E (unit c) = LINEAR \<and> (direction c = UP \<or> direction c = DOWN)
      | _ \<Rightarrow> False)"

section \<open>Axis order of an ellipsoidal coordinate system\<close>

text \<open>
  \<^verbatim>\<open>EllipsoidalCS::axisOrder\<close> reads the first two axes without a check. With fewer than
  two axes the read is out of range, which the model reports as \<open>None\<close>.
\<close>

definition axisOrder :: "('r, 'u) CoordinateSystem \<Rightarrow> AxisOrder option" where
  "axisOrder cs =
     (let l_axisList = axisList cs in
      if length l_axisList < 2 then None
      else
        let dir0 = direction (l_axisList ! 0); dir1 = direction (l_axisList ! 1) in
        if dir0 = NORTH \<and> dir1 = EAST then
          (if length l_axisList = 2 then Some LAT_NORTH_LONG_EAST
           else if direction (l_axisList ! 2) = UP then Some LAT_NORTH_LONG_EAST_HEIGHT_UP
           else Some OTHER)
        else if dir0 = EAST \<and> dir1 = NORTH then
          (if length l_axisList = 2 then Some LONG_EAST_LAT_NORTH
           else if direction (l_axisList ! 2) = UP then Some LONG_EAST_LAT_NORTH_HEIGHT_UP
           else Some OTHER)
        else Some OTHER)"

section \<open>Export to WKT\<close>

text \<open>
  The formatter (\<^verbatim>\<open>io::WKTFormatter\<close>) is reached through its methods only. The model
  keeps the settings that the coordinate system code reads and the stack behind
  \<^verbatim>\<open>pushOutputUnit\<close>, \<^verbatim>\<open>popOutputUnit\<close> and \<^verbatim>\<open>outputUnit\<close>, and represents what is
  written as a tree: \<^verbatim>\<open>startNode(keyword, hasId)\<close> \<dots> \<^verbatim>\<open>endNode()\<close> is a node with the
  items added in between as children, and each \<^verbatim>\<open>add\<close> is a leaf. The keyword \<open>None\<close>
  is the empty string of the anonymous indentation level. What
  \<^verbatim>\<open>UnitOfMeasure::_exportToWKT\<close> and \<^verbatim>\<open>IdentifiedObject::formatID\<close> write is not
  part of these sources: a call of either is a leaf that records its arguments.
\<close>

datatype Version = WKT1 | WKT2

record WKTFormatter =
  version :: Version
  use2018Keywords :: bool
  outputAxisOrder :: bool
  outputCSUnitOnlyOnceIfSame :: bool
  outputId :: bool
  outputUnitStack :: "bool list"

definition pushOutputUnit :: "bool \<Rightarrow> WKTFormatter \<Rightarrow> WKTFormatter" where
  "pushOutputUnit outputUnitIn formatter =
     formatter\<lparr>outputUnitStack := outputUnitIn # outputUnitStack formatter\<rparr>"

definition popOutputUnit :: "WKTFormatter \<Rightarrow> WKTFormatter" where
  "popOutputUnit formatter = formatter\<lparr>outputUnitStack := tl (outputUnitStack formatter)\<rparr>"

text \<open>The top of the stack; a new formatter outputs units, which an empty stack stands for.\<close>

definition outputUnit :: "WKTFormatter \<Rightarrow> bool" where
  "outputUnit formatter = (case outputUnitStack formatter of [] \<Rightarrow> True | b # _ \<Rightarrow> b)"

datatype ('r, 'u) wkt =
    Node "WKTConstants option" bool "('r, 'u) wkt list"
  | AddString string
  | AddQuotedString string
  | AddInt int
  | AddSize nat
  | AddDouble 'r
  | UnitWKT 'u "WKTConstants option"
  | FormatID "Identifier list"

text \<open>\<^verbatim>\<open>internal::toupper\<close> and \<^verbatim>\<open>internal::tolower\<close>: the case mapping of ASCII letters.\<close>

definition toupper_char :: "char \<Rightarrow> char" where
  "toupper_char c =
     (let n = (of_char c :: nat) in if 97 \<le> n \<and> n \<le> 122 then char_of (n - 32) else c)"

definition tolower_char :: "char \<Rightarrow> char" where
  "tolower_char c =
     (let n = (of_char c :: nat) in if 65 \<le> n \<and> n \<le> 90 then char_of (n + 32) else c)"

definition toupper :: "string \<Rightarrow> string" where
  "toupper osStr = map toupper_char osStr"

definition tolower :: "string \<Rightarrow> string" where
  "tolower osStr = map tolower_char osStr"

definition Meridian_exportToWKT :: "WKTFormatter \<Rightarrow> ('r, 'u) Meridian \<Rightarrow> ('r, 'u) wkt" where
  "Meridian_exportToWKT formatter m =
     Node (Some MERIDIAN) (identifiers m \<noteq> [])
       ([AddDouble (Measure_value (longitude m)),
         UnitWKT (Measure_unit (longitude m)) (Some ANGLEUNIT)] @
        (if outputId formatter then [FormatID (identifiers m)] else []))"

text \<open>\<^verbatim>\<open>AxisDirectionWKT1::valueOf\<close>: the registered object of that name, or the null pointer.\<close>

definition AxisDirectionWKT1_valueOf :: "'u Externals \<Rightarrow> string \<Rightarrow> string option" where
  "AxisDirectionWKT1_valueOf E nameIn =
     (if nameIn \<notin> AxisDirectionWKT1_keys E then None else Some nameIn)"

text \<open>
  The two local variables of \<^verbatim>\<open>CoordinateSystemAxis::_exportToWKT(formatter, order,
  disableAbbrev)\<close> at the point where they are written: \<^verbatim>\<open>axisDesignation\<close> and \<^verbatim>\<open>dir\<close>.
\<close>

definition axisDesignation ::
  "'u Externals \<Rightarrow> bool \<Rightarrow> int \<Rightarrow> bool \<Rightarrow> ('r, 'u) CoordinateSystemAxis \<Rightarrow> string"
where
  "axisDesignation E isWKT2 order disableAbbrev this =
     (let axisName = nameStr this;
          abbrev = abbreviation this;
          parenthesedAbbrev = ''('' @ abbrev @ '')'';
          d0 = (if axisName \<noteq> [] then
                  (if isWKT2 then tolower (take 1 axisName) @ drop 1 axisName else axisName)
                else []);
          d1 = (if \<not> disableAbbrev \<and> isWKT2 \<and>
                   \<not> (axisName = AxisName_Latitude E \<or> axisName = AxisName_Longitude E)
                then
                  (let d = (if d0 \<noteq> [] \<and> abbrev \<noteq> [] then d0 @ '' '' else d0)
                   in if abbrev \<noteq> [] then d @ parenthesedAbbrev else d)
                else d0)
      in if \<not> isWKT2 then d1
         else if abbrev \<noteq> [] then
           (if direction this = GEOCENTRIC_X \<or> direction this = GEOCENTRIC_Y \<or>
               direction this = GEOCENTRIC_Z
            then parenthesedAbbrev
            else if (order = 1 \<and> axisName = AxisName_Easting E \<and> abbrev = AxisAbbreviation_E E) \<or>
                    (order = 2 \<and> axisName = AxisName_Northing E \<and> abbrev = AxisAbbreviation_N E)
            then parenthesedAbbrev
            else d1)
         else d1)"

definition axisDir :: "'u Externals \<Rightarrow> bool \<Rightarrow> ('r, 'u) CoordinateSystemAxis \<Rightarrow> string" where
  "axisDir E isWKT2 this =
     (let dir = toString E (direction this) in
      if \<not> isWKT2 then
        (let dir = toupper dir in
         if direction this = GEOCENTRIC_Z then AxisDirectionWKT1_NORTH E
         else if AxisDirectionWKT1_valueOf E dir = None then AxisDirectionWKT1_OTHER E
         else dir)
      else dir)"

definition CoordinateSystemAxis_exportToWKT ::
  "'u Externals \<Rightarrow> WKTFormatter \<Rightarrow> int \<Rightarrow> bool \<Rightarrow> ('r, 'u) CoordinateSystemAxis \<Rightarrow> ('r, 'u) wkt"
where
  "CoordinateSystemAxis_exportToWKT E formatter order disableAbbrev this =
     (let isWKT2 = (version formatter = WKT2) in
      Node (Some AXIS) (identifiers this \<noteq> [])
        ([AddQuotedString (axisDesignation E isWKT2 order disableAbbrev this),
          AddString (axisDir E isWKT2 this)] @
         (case meridian this of
            None \<Rightarrow> []
          | Some m \<Rightarrow> [Meridian_exportToWKT formatter m]) @
         (if outputAxisOrder formatter \<and> order > 0
          then [Node (Some ORDER) False [AddInt order]] else []) @
         (if outputUnit formatter \<and> unit_type E (unit this) \<noteq> NONE
          then [UnitWKT (unit this) None] else []) @
         (if outputId formatter then [FormatID (identifiers this)] else [])))"

text \<open>The public one-argument \<^verbatim>\<open>_exportToWKT\<close> of an axis.\<close>

definition CoordinateSystemAxis_exportToWKT0 ::
  "'u Externals \<Rightarrow> WKTFormatter \<Rightarrow> ('r, 'u) CoordinateSystemAxis \<Rightarrow> ('r, 'u) wkt"
where
  "CoordinateSystemAxis_exportToWKT0 E formatter this =
     CoordinateSystemAxis_exportToWKT E formatter 0 False this"

text \<open>
  The first loop of \<^verbatim>\<open>CoordinateSystem::_exportToWKT\<close>, over the state
  \<open>(unit, bAllSameUnit, bFirstUnit)\<close>.
\<close>

fun unit_loop ::
  "'u Externals \<Rightarrow> ('r, 'u) CoordinateSystemAxis list \<Rightarrow> 'u \<times> bool \<times> bool \<Rightarrow> 'u \<times> bool \<times> bool"
where
  "unit_loop E [] s = s"
| "unit_loop E (axis # rest) (unit0, bAllSameUnit, bFirstUnit) =
     (let l_unit = unit axis in
      if bFirstUnit then unit_loop E rest (l_unit, bAllSameUnit, False)
      else if \<not> unit_eq E unit0 l_unit then unit_loop E rest (unit0, False, bFirstUnit)
      else unit_loop E rest (unit0, bAllSameUnit, bFirstUnit))"

text \<open>
  The second loop, which exports the axes; \<open>order\<close> counts from 1. The counter is a C
  \<^verbatim>\<open>int\<close>; it stays far below its bound, the number of axes being that of a vector in
  memory.
\<close>

fun axes_loop ::
  "'u Externals \<Rightarrow> WKTFormatter \<Rightarrow> bool \<Rightarrow> nat \<Rightarrow> bool \<Rightarrow> int
     \<Rightarrow> ('r, 'u) CoordinateSystemAxis list \<Rightarrow> ('r, 'u) wkt list"
where
  "axes_loop E formatter isWKT2 n disableAbbrev order [] = []"
| "axes_loop E formatter isWKT2 n disableAbbrev order (axis # rest) =
     (let axisOrder = (if isWKT2 \<and> n > 1 then order else 0) in
      CoordinateSystemAxis_exportToWKT E formatter axisOrder disableAbbrev axis #
      axes_loop E formatter isWKT2 n disableAbbrev (order + 1) rest)"

text \<open>
  \<^verbatim>\<open>CoordinateSystem::_exportToWKT\<close>: the items written at the current level, and the
  formatter afterwards.
\<close>

definition CoordinateSystem_exportToWKT ::
  "'u Externals \<Rightarrow> WKTFormatter \<Rightarrow> ('r, 'u) CoordinateSystem
     \<Rightarrow> ('r, 'u) wkt list \<times> WKTFormatter"
where
  "CoordinateSystem_exportToWKT E formatter this =
     (let isWKT2 = (version formatter = WKT2);
          l_axisList = axisList this;
          (unit0, bAllSameUnit, bFirstUnit) = unit_loop E l_axisList (unit_NONE E, True, True);
          formatter1 = pushOutputUnit
            (isWKT2 \<and> (\<not> bAllSameUnit \<or> \<not> outputCSUnitOnlyOnceIfSame formatter)) formatter;
          disableAbbrev =
            (length l_axisList = 3 \<and>
             nameStr (l_axisList ! 0) = AxisName_Latitude E \<and>
             nameStr (l_axisList ! 1) = AxisName_Longitude E \<and>
             nameStr (l_axisList ! 2) = AxisName_Ellipsoidal_height E);
          axes = axes_loop E formatter1 isWKT2 (length l_axisList) disableAbbrev 1 l_axisList;
          units = (if isWKT2 \<and> l_axisList \<noteq> [] \<and> bAllSameUnit \<and>
                      outputCSUnitOnlyOnceIfSame formatter1
                   then [UnitWKT unit0 None] else []);
          formatter2 = popOutputUnit formatter1
      in if isWKT2 then
           ([Node (Some CS) (identifiers this \<noteq> [])
               [AddString (getWKT2Type E (kind this) (use2018Keywords formatter)),
                AddSize (length l_axisList)],
             Node None False (axes @ units)],
            formatter2)
         else (axes @ units, formatter2))"

section \<open>Reading a written tree\<close>

text \<open>
  The children of a node; the AXIS nodes of an export, at the current level or inside
  an anonymous level; the ORDER nodes and the unit exports among a list of children.
\<close>

fun children :: "('r, 'u) wkt \<Rightarrow> ('r, 'u) wkt list" where
  "children (Node k h cs) = cs"
| "children _ = []"

fun is_AXIS :: "('r, 'u) wkt \<Rightarrow> bool" where
  "is_AXIS (Node (Some AXIS) h cs) = True"
| "is_AXIS _ = False"

fun is_ORDER :: "('r, 'u) wkt \<Rightarrow> bool" where
  "is_ORDER (Node (Some ORDER) h cs) = True"
| "is_ORDER _ = False"

fun is_UnitWKT :: "('r, 'u) wkt \<Rightarrow> bool" where
  "is_UnitWKT (UnitWKT u k) = True"
| "is_UnitWKT _ = False"

fun is_AddString :: "('r, 'u) wkt \<Rightarrow> bool" where
  "is_AddString (AddString s) = True"
| "is_AddString _ = False"

fun open_anonymous :: "('r, 'u) wkt \<Rightarrow> ('r, 'u) wkt list" where
  "open_anonymous (Node None h cs) = cs"
| "open_anonymous x = [x]"

definition AXIS_nodes :: "('r, 'u) wkt list \<Rightarrow> ('r, 'u) wkt list" where
  "AXIS_nodes out = filter is_AXIS (concat (map open_anonymous out))"

definition ORDER_children :: "('r, 'u) wkt \<Rightarrow> ('r, 'u) wkt list" where
  "ORDER_children n = filter is_ORDER (children n)"

definition UNIT_children :: "('r, 'u) wkt \<Rightarrow> ('r, 'u) wkt list" where
  "UNIT_children n = filter is_UnitWKT (children n)"

text \<open>
  Whether every axis after the first has a unit equal to the unit of the first axis, the
  unit of the first axis being the left operand of the comparison.
\<close>

definition units_equal_to_first ::
  "'u Externals \<Rightarrow> ('r, 'u) CoordinateSystemAxis list \<Rightarrow> bool"
where
  "units_equal_to_first E axes =
     list_all (\<lambda>a. unit_eq E (unit (hd axes)) (unit a)) (tl axes)"

text \<open>The unit exports written after the axes, at the level of the axes.\<close>

definition CS_level_units :: "('r, 'u) wkt list \<Rightarrow> ('r, 'u) wkt list" where
  "CS_level_units out = filter is_UnitWKT (concat (map open_anonymous out))"

section \<open>The C interface\<close>

text \<open>
  A context is known by its address, of type \<open>'c\<close>. Logging calls the logger of a
  context; the state of the model is the list of these calls at the level
  \<^verbatim>\<open>PJ_LOG_ERROR\<close>, each with its context and its message.
\<close>

type_synonym 'c log = "('c \<times> string) list"

definition proj_log_error :: "'c \<Rightarrow> string \<Rightarrow> string \<Rightarrow> 'c log \<Rightarrow> 'c log" where
  "proj_log_error c function text lg = lg @ [(c, function @ '': '' @ text)]"

datatype PJ_WKT_TYPE =
    PJ_WKT2_2018 | PJ_WKT2_2018_SIMPLIFIED | PJ_WKT2_2015 | PJ_WKT2_2015_SIMPLIFIED
  | PJ_WKT1_GDAL

datatype PJ_PROJ_STRING_TYPE = PJ_PROJ_5 | PJ_PROJ_4

datatype WKTFormatter_Convention =
    WKT2_2018 | WKT2_2018_SIMPLIFIED | WKT2_2015 | WKT2_2015_SIMPLIFIED | WKT1_GDAL

datatype PROJStringFormatter_Convention = PROJ_5 | PROJ_4

text \<open>
  \<^verbatim>\<open>struct PJ_OBJ\<close>: the context, the wrapped object (of type \<open>'o\<close>, the class
  \<^verbatim>\<open>BaseObject\<close>) and the two maps of cached results.
\<close>

record ('c, 'o) PJ_OBJ =
  ctx :: 'c
  obj :: 'o
  mapWKTString :: "PJ_WKT_TYPE \<rightharpoonup> string"
  mapPROJString :: "PJ_PROJ_STRING_TYPE \<rightharpoonup> string"

definition new_PJ_OBJ :: "'c \<Rightarrow> 'o \<Rightarrow> ('c, 'o) PJ_OBJ" where
  "new_PJ_OBJ ctxIn objIn =
     \<lparr> ctx = ctxIn, obj = objIn, mapWKTString = Map.empty, mapPROJString = Map.empty \<rparr>"



text \<open>
  \<^verbatim>\<open>proj_obj_as_wkt\<close> and \<^verbatim>\<open>proj_obj_as_proj_string\<close>. The dynamic cast to the exportable
  interface and the export itself are parameters. The state is the object, with its
  cache, and the log.
\<close>

definition proj_obj_as_wkt ::
  "('o \<Rightarrow> 'x option) \<Rightarrow> ('x \<Rightarrow> WKTFormatter_Convention \<Rightarrow> cpp_exception + string)
     \<Rightarrow> ('c, 'o) PJ_OBJ \<Rightarrow> PJ_WKT_TYPE \<Rightarrow> 'c log
     \<Rightarrow> (cpp_exception + string option) \<times> ('c, 'o) PJ_OBJ \<times> 'c log"
where
  "proj_obj_as_wkt cast_IWKTExportable exportToWKT pj wkt_type lg =
     (case mapWKTString pj wkt_type of
        Some cached \<Rightarrow> (Inr (Some cached), pj, lg)
      | None \<Rightarrow>
         (case cast_IWKTExportable (obj pj) of
            None \<Rightarrow>
              (Inr None, pj,
               proj_log_error (ctx pj) ''proj_obj_as_wkt'' ''Object type not exportable to WKT'' lg)
          | Some wktExportable \<Rightarrow>
              (let convention =
                 (case wkt_type of
                    PJ_WKT2_2018 \<Rightarrow> WKT2_2018
                  | PJ_WKT2_2018_SIMPLIFIED \<Rightarrow> WKT2_2018_SIMPLIFIED
                  | PJ_WKT2_2015 \<Rightarrow> WKT2_2015
                  | PJ_WKT2_2015_SIMPLIFIED \<Rightarrow> WKT2_2015_SIMPLIFIED
                  | PJ_WKT1_GDAL \<Rightarrow> WKT1_GDAL)
               in case exportToWKT wktExportable convention of
                    Inr wkt \<Rightarrow>
                      (let pj' = pj\<lparr>mapWKTString := (mapWKTString pj)(wkt_type \<mapsto> wkt)\<rparr>
                       in (Inr (mapWKTString pj' wkt_type), pj', lg))
                  | Inl (std_exception what) \<Rightarrow>
                      (Inr None, pj, proj_log_error (ctx pj) ''proj_obj_as_wkt'' what lg)
                  | Inl other_exception \<Rightarrow> (Inl other_exception, pj, lg))))"

definition proj_obj_as_proj_string ::
  "('o \<Rightarrow> 'x option) \<Rightarrow> ('x \<Rightarrow> PROJStringFormatter_Convention \<Rightarrow> cpp_exception + string)
     \<Rightarrow> ('c, 'o) PJ_OBJ \<Rightarrow> PJ_PROJ_STRING_TYPE \<Rightarrow> 'c log
     \<Rightarrow> (cpp_exception + string option) \<times> ('c, 'o) PJ_OBJ \<times> 'c log"
where
  "proj_obj_as_proj_string cast_IPROJStringExportable exportToPROJString pj proj_type lg =
     (case mapPROJString pj proj_type of
        Some cached \<Rightarrow> (Inr (Some cached), pj, lg)
      | None \<Rightarrow>
         (case cast_IPROJStringExportable (obj pj) of
            None \<Rightarrow>
              (Inr None, pj,
               proj_log_error (ctx pj) ''proj_obj_as_proj_string''
                 ''Object type not exportable to PROJ'' lg)
          | Some exportable \<Rightarrow>
              (let convention =
                 (case proj_type of PJ_PROJ_5 \<Rightarrow> PROJ_5 | PJ_PROJ_4 \<Rightarrow> PROJ_4)
               in case exportToPROJString exportable convention of
                    Inr wkt \<Rightarrow>
                      (let pj' = pj\<lparr>mapPROJString := (mapPROJString pj)(proj_type \<mapsto> wkt)\<rparr>
                       in (Inr (mapPROJString pj' proj_type), pj', lg))
                  | Inl (std_exception what) \<Rightarrow>
                      (Inr None, pj,
                       proj_log_error (ctx pj) ''proj_obj_as_proj_string'' what lg)
                  | Inl other_exception \<Rightarrow> (Inl other_exception, pj, lg))))"

subsection \<open>Identifiers\<close>

text \<open>
  A read of a vector, \<open>None\<close> when the index is outside the vector (which in C++ is
  undefined behaviour).
\<close>

definition vector_at :: "'a list \<Rightarrow> nat \<Rightarrow> 'a option" where
  "vector_at v i = (if i < length v then Some (v ! i) else None)"

text \<open>
  \<^verbatim>\<open>proj_obj_get_id_auth_name\<close> and \<^verbatim>\<open>proj_obj_get_id_code\<close>. The index is a C \<^verbatim>\<open>int\<close>,
  a signed word of 32 bits; \<^verbatim>\<open>static_cast<size_t>(index)\<close> is applied to a
  non-negative index only, where it is the value itself. The dynamic cast to
  \<^verbatim>\<open>IdentifiedObject\<close> is a parameter. The result is \<open>None\<close> if the function reads
  outside the vector of identifiers; otherwise it is the returned pointer (\<open>None\<close> for
  \<^verbatim>\<open>NULL\<close>) and the log.
\<close>

definition proj_obj_get_id_auth_name ::
  "('o \<Rightarrow> IdentifiedObject option) \<Rightarrow> ('c, 'o) PJ_OBJ \<Rightarrow> 32 word \<Rightarrow> 'c log
     \<Rightarrow> (string option \<times> 'c log) option"
where
  "proj_obj_get_id_auth_name cast_IdentifiedObject pj index lg =
     (case cast_IdentifiedObject (obj pj) of
        None \<Rightarrow>
          Some (None, proj_log_error (ctx pj) ''proj_obj_get_id_auth_name''
                        ''Object type not castable to IdentifiedObject'' lg)
      | Some identifiable \<Rightarrow>
          if sint index < 0 \<or> nat (sint index) \<ge> length (identifiers identifiable)
          then Some (None, lg)
          else
            (case vector_at (identifiers identifiable) (nat (sint index)) of
               None \<Rightarrow> None
             | Some ident \<Rightarrow>
                 (case codeSpace ident of
                    None \<Rightarrow> Some (None, lg)
                  | Some cs \<Rightarrow> Some (Some cs, lg))))"

definition proj_obj_get_id_code ::
  "('o \<Rightarrow> IdentifiedObject option) \<Rightarrow> ('c, 'o) PJ_OBJ \<Rightarrow> 32 word \<Rightarrow> 'c log
     \<Rightarrow> (string option \<times> 'c log) option"
where
  "proj_obj_get_id_code cast_IdentifiedObject pj index lg =
     (case cast_IdentifiedObject (obj pj) of
        None \<Rightarrow>
          Some (None, proj_log_error (ctx pj) ''proj_obj_get_id_code''
                        ''Object type not castable to IdentifiedObject'' lg)
      | Some identifiable \<Rightarrow>
          if sint index < 0 \<or> nat (sint index) \<ge> length (identifiers identifiable)
          then Some (None, lg)
          else
            (case vector_at (identifiers identifiable) (nat (sint index)) of
               None \<Rightarrow> None
             | Some ident \<Rightarrow> Some (Some (code ident), lg)))"

subsection \<open>Ellipsoid parameters\<close>

text \<open>
  Modelled from the spec: the class \<^verbatim>\<open>datum::Ellipsoid\<close> is not part of these sources. By
  the specification an ellipsoid is a semi-major axis and a form, which is a semi-minor
  axis, an inverse flattening or the sphere; the semi-minor axis and the inverse
  flattening are derived on demand and are pure functions of the semi-major axis and the
  form. Lengths are kept as their value in metres, of type \<open>'r\<close>. The two derivations are
  parameters; \<open>semiMinorAxis\<close> is the optional semi-minor axis of the definition.
\<close>

datatype 'r EllipsoidForm = SemiMinor 'r | InverseFlattening 'r | Sphere

record 'r Ellipsoid = IdentifiedObject +
  semi_major :: 'r
  form :: "'r EllipsoidForm"

record 'r Derivations =
  derive_semi_minor :: "'r \<Rightarrow> 'r EllipsoidForm \<Rightarrow> 'r"
  derive_inverse_flattening :: "'r \<Rightarrow> 'r EllipsoidForm \<Rightarrow> 'r"

definition semiMajorAxis :: "'r Ellipsoid \<Rightarrow> 'r" where
  "semiMajorAxis e = semi_major e"

definition semiMinorAxis :: "'r Ellipsoid \<Rightarrow> 'r option" where
  "semiMinorAxis e = (case form e of SemiMinor b \<Rightarrow> Some b | _ \<Rightarrow> None)"

definition computeSemiMinorAxis :: "'r Derivations \<Rightarrow> 'r Ellipsoid \<Rightarrow> 'r" where
  "computeSemiMinorAxis D e =
     (case form e of SemiMinor b \<Rightarrow> b | _ \<Rightarrow> derive_semi_minor D (semi_major e) (form e))"

definition computeInverseFlattening :: "'r Derivations \<Rightarrow> 'r Ellipsoid \<Rightarrow> 'r" where
  "computeInverseFlattening D e = derive_inverse_flattening D (semi_major e) (form e)"

text \<open>
  \<^verbatim>\<open>proj_obj_ellipsoid_get_parameters\<close>. Each output pointer may be null; the flag tells
  whether it is not, and the cell it points to is \<open>None\<close> when nothing is stored in it.
\<close>

definition TRUE :: int where "TRUE = 1"

definition FALSE :: int where "FALSE = 0"

record 'r ellipsoid_parameters =
  pSemiMajorMetre :: "'r option"
  pSemiMinorMetre :: "'r option"
  pIsSemiMinorComputed :: "int option"
  pInverseFlattening :: "'r option"

definition proj_obj_ellipsoid_get_parameters ::
  "('o \<Rightarrow> 'r Ellipsoid option) \<Rightarrow> 'r Derivations \<Rightarrow> ('c, 'o) PJ_OBJ
     \<Rightarrow> bool \<Rightarrow> bool \<Rightarrow> bool \<Rightarrow> bool \<Rightarrow> 'c log
     \<Rightarrow> int \<times> 'r ellipsoid_parameters \<times> 'c log"
where
  "proj_obj_ellipsoid_get_parameters cast_Ellipsoid D ellipsoid
       hasSemiMajorMetre hasSemiMinorMetre hasIsSemiMinorComputed hasInverseFlattening lg =
     (let nothing = \<lparr> pSemiMajorMetre = None, pSemiMinorMetre = None,
                       pIsSemiMinorComputed = None, pInverseFlattening = None \<rparr> in
      case cast_Ellipsoid (obj ellipsoid) of
        None \<Rightarrow>
          (FALSE, nothing,
           proj_log_error (ctx ellipsoid) ''proj_obj_ellipsoid_get_parameters''
             ''Object is not a Ellipsoid'' lg)
      | Some l_ellipsoid \<Rightarrow>
          (TRUE,
           \<lparr> pSemiMajorMetre =
               (if hasSemiMajorMetre then Some (semiMajorAxis l_ellipsoid) else None),
             pSemiMinorMetre =
               (if hasSemiMinorMetre then Some (computeSemiMinorAxis D l_ellipsoid) else None),
             pIsSemiMinorComputed =
               (if hasIsSemiMinorComputed
                then Some (if \<not> (semiMinorAxis l_ellipsoid \<noteq> None) then 1 else 0) else None),
             pInverseFlattening =
               (if hasInverseFlattening then Some (computeInverseFlattening D l_ellipsoid)
                else None) \<rparr>,
           lg))"

section \<open>An instance used to evaluate the definitions\<close>

text \<open>
  For evaluation at concrete inputs, a unit is a pair of a name and a type, compared by
  name; identified objects are compared by name; the direction names and the WKT1
  direction keywords are the usual ones.
\<close>

definition example_toString :: "AxisDirection \<Rightarrow> string" where
  "example_toString d =
     (case d of
        NORTH \<Rightarrow> ''north'' | SOUTH \<Rightarrow> ''south'' | EAST \<Rightarrow> ''east'' | WEST \<Rightarrow> ''west''
      | UP \<Rightarrow> ''up'' | DOWN \<Rightarrow> ''down''
      | GEOCENTRIC_X \<Rightarrow> ''geocentricX'' | GEOCENTRIC_Y \<Rightarrow> ''geocentricY''
      | GEOCENTRIC_Z \<Rightarrow> ''geocentricZ''
      | FORWARD \<Rightarrow> ''forward'' | FUTURE \<Rightarrow> ''future''
      | _ \<Rightarrow> ''unspecified'')"

definition example_Externals :: "(string \<times> UnitType) Externals" where
  "example_Externals =
     \<lparr> unit_eq = (\<lambda>a b. fst a = fst b),
       unit_type = snd,
       unit_NONE = ('''', NONE),
       IdentifiedObject_isEquivalentTo = (\<lambda>a b c. nameStr a = nameStr b),
       toString = example_toString,
       AxisDirectionWKT1_keys =
         {''NORTH'', ''SOUTH'', ''EAST'', ''WEST'', ''UP'', ''DOWN'', ''OTHER''},
       AxisDirectionWKT1_NORTH = ''NORTH'',
       AxisDirectionWKT1_OTHER = ''OTHER'',
       AxisName_Latitude = ''Latitude'',
       AxisName_Longitude = ''Longitude'',
       AxisName_Ellipsoidal_height = ''Ellipsoidal height'',
       AxisName_Easting = ''Easting'',
       AxisName_Northing = ''Northing'',
       AxisAbbreviation_E = ''E'',
       AxisAbbreviation_N = ''N'',
       getWKT2Type = (\<lambda>k use2018Keywords.
          if k = CartesianCS then ''Cartesian''
          else if k = EllipsoidalCS then ''ellipsoidal''
          else if k = SphericalCS then ''spherical''
          else if k = DateTimeTemporalCS then (if use2018Keywords then ''TemporalDateTime'' else ''temporal'')
          else if k = TemporalCountCS then (if use2018Keywords then ''TemporalCount'' else ''temporal'')
          else if k = TemporalMeasureCS then (if use2018Keywords then ''TemporalMeasure'' else ''temporal'')
          else ''other'') \<rparr>"

definition DEGREE :: "string \<times> UnitType" where
  "DEGREE = (''degree'', ANGULAR)"

definition METRE :: "string \<times> UnitType" where
  "METRE = (''metre'', LINEAR)"

definition named :: "string \<Rightarrow> IdentifiedObject" where
  "named n = \<lparr> nameStr = n, identifiers = [] \<rparr>"

text \<open>A property map is a name here, or \<open>None\<close> for a map with a value of the wrong type.\<close>

definition ex_setProperties :: "string option \<Rightarrow> cpp_exception + IdentifiedObject" where
  "ex_setProperties properties =
     (case properties of
        None \<Rightarrow> Inl (std_exception ''Invalid value type for name'')
      | Some n \<Rightarrow> Inr (named n))"

definition ex_latitude :: "(int, string \<times> UnitType) CoordinateSystemAxis" where
  "ex_latitude = \<lparr> nameStr = ''Latitude'', identifiers = [], abbreviation = ''lat'',
                   direction = NORTH, unit = DEGREE, meridian = None \<rparr>"

definition ex_longitude :: "(int, string \<times> UnitType) CoordinateSystemAxis" where
  "ex_longitude = \<lparr> nameStr = ''Longitude'', identifiers = [], abbreviation = ''lon'',
                    direction = EAST, unit = DEGREE, meridian = None \<rparr>"

definition ex_height :: "(int, string \<times> UnitType) CoordinateSystemAxis" where
  "ex_height = \<lparr> nameStr = ''Ellipsoidal height'', identifiers = [], abbreviation = ''h'',
                 direction = UP, unit = METRE, meridian = None \<rparr>"

definition ex_easting :: "(int, string \<times> UnitType) CoordinateSystemAxis" where
  "ex_easting = \<lparr> nameStr = ''Easting'', identifiers = [], abbreviation = ''E'',
                  direction = EAST, unit = METRE, meridian = None \<rparr>"

definition ex_northing :: "(int, string \<times> UnitType) CoordinateSystemAxis" where
  "ex_northing = \<lparr> nameStr = ''Northing'', identifiers = [], abbreviation = ''N'',
                   direction = NORTH, unit = METRE, meridian = None \<rparr>"

definition ex_unitless :: "(int, string \<times> UnitType) CoordinateSystemAxis" where
  "ex_unitless = \<lparr> nameStr = ''Row'', identifiers = [], abbreviation = ''r'',
                   direction = ROW_POSITIVE, unit = ([], NONE), meridian = None \<rparr>"

text \<open>The coordinate system object that a factory returns for the empty name.\<close>

definition ex_cs ::
  "CSKind \<Rightarrow> (int, string \<times> UnitType) CoordinateSystemAxis list
     \<Rightarrow> (int, string \<times> UnitType) CoordinateSystem"
where
  "ex_cs k axes = \<lparr> nameStr = [], identifiers = [], axisList = axes, kind = k \<rparr>"

definition ex_WKT2 :: WKTFormatter where
  "ex_WKT2 = \<lparr> version = WKT2, use2018Keywords = False, outputAxisOrder = True,
               outputCSUnitOnlyOnceIfSame = False, outputId = True, outputUnitStack = [True] \<rparr>"

definition ex_WKT2_SIMPLIFIED :: WKTFormatter where
  "ex_WKT2_SIMPLIFIED =
     \<lparr> version = WKT2, use2018Keywords = False, outputAxisOrder = False,
       outputCSUnitOnlyOnceIfSame = True, outputId = False, outputUnitStack = [True] \<rparr>"

definition ex_WKT1_GDAL :: WKTFormatter where
  "ex_WKT1_GDAL =
     \<lparr> version = WKT1, use2018Keywords = False, outputAxisOrder = False,
       outputCSUnitOnlyOnceIfSame = False, outputId = True, outputUnitStack = [True] \<rparr>"


definition ex_exportToWKT ::
  "IdentifiedObject \<Rightarrow> WKTFormatter_Convention \<Rightarrow> cpp_exception + string"
where
  "ex_exportToWKT x convention =
     (if convention = WKT1_GDAL then Inl (std_exception ''not supported in WKT1'')
      else Inr (''ELLIPSOID['' @ nameStr x @ '']''))"

definition ex_exportToPROJString ::
  "IdentifiedObject \<Rightarrow> PROJStringFormatter_Convention \<Rightarrow> cpp_exception + string"
where
  "ex_exportToPROJString x convention =
     (if convention = PROJ_4 then Inl (std_exception ''not supported in PROJ.4'')
      else Inr (''+proj=longlat +ellps='' @ nameStr x))"

definition ex_EPSG_4326 :: "(nat, IdentifiedObject) PJ_OBJ" where
  "ex_EPSG_4326 =
     new_PJ_OBJ 0
       \<lparr> nameStr = ''WGS 84'',
         identifiers = [\<lparr> code = ''4326'', codeSpace = Some ''EPSG'' \<rparr>] \<rparr>"

definition ex_WGS84 :: "int Ellipsoid" where
  "ex_WGS84 = \<lparr> nameStr = ''WGS 84'', identifiers = [], semi_major = 6378137,
                form = InverseFlattening 298 \<rparr>"

definition ex_Derivations :: "int Derivations" where
  "ex_Derivations =
     \<lparr> derive_semi_minor =
         (\<lambda>a f. case f of InverseFlattening rf \<Rightarrow> a - a div rf | _ \<Rightarrow> a),
       derive_inverse_flattening =
         (\<lambda>a f. case f of InverseFlattening rf \<Rightarrow> rf | SemiMinor b \<Rightarrow> a div (a - b)
                 | Sphere \<Rightarrow> 0) \<rparr>"

section \<open>Construction does not look at the axes\<close>

lemma length_2_cases: "length xs = 2 \<Longrightarrow> \<exists>a b. xs = [a, b]"
  by (cases xs; cases "tl xs"; auto)

lemma length_3_cases: "length xs = 3 \<Longrightarrow> \<exists>a b c. xs = [a, b, c]"
  by (cases xs; cases "tl xs"; cases "tl (tl xs)"; auto)

lemma make_CoordinateSystem_Inr:
  "setProperties p = Inr installed \<Longrightarrow>
   \<exists>cs. make_CoordinateSystem k setProperties p axes = Inr cs \<and>
        axisList cs = axes \<and> kind cs = k"
  by (simp add: make_CoordinateSystem_def)

lemma make_CoordinateSystem_Inl:
  "setProperties p = Inl e \<Longrightarrow> make_CoordinateSystem k setProperties p axes = Inl e"
  by (simp add: make_CoordinateSystem_def)

lemma make_CoordinateSystem_example:
  "make_CoordinateSystem k ex_setProperties (Some []) axes = Inr (ex_cs k axes)"
  by (simp add: make_CoordinateSystem_def ex_setProperties_def named_def ex_cs_def)

lemma example_axisList: "axisList (ex_cs k axes) = axes"
  by (simp add: ex_cs_def)

lemma example_units:
  "unit ex_latitude = DEGREE" "unit ex_longitude = DEGREE" "unit ex_height = METRE"
  "unit ex_easting = METRE" "unit ex_northing = METRE" "unit ex_unitless = ([], NONE)"
  "unit_eq example_Externals DEGREE DEGREE" "unit_eq example_Externals METRE METRE"
  "\<not> unit_eq example_Externals DEGREE METRE" "\<not> unit_eq example_Externals METRE DEGREE"
  "\<not> unit_eq example_Externals METRE ([], NONE)"
  "unit_type example_Externals METRE = LINEAR" "unit_type example_Externals DEGREE = ANGULAR"
  "unit_type example_Externals ([], NONE) = NONE"
  by (simp_all add: ex_latitude_def ex_longitude_def ex_height_def ex_easting_def
      ex_northing_def ex_unitless_def example_Externals_def DEGREE_def METRE_def)

lemma example_directions:
  "direction ex_latitude = NORTH" "direction ex_longitude = EAST" "direction ex_height = UP"
  by (simp_all add: ex_latitude_def ex_longitude_def ex_height_def)

text \<open>
  Claim C1, as stated, fails: \<^verbatim>\<open>CartesianCS::create\<close> accepts two axes in degrees and
  \<^verbatim>\<open>EllipsoidalCS::create\<close> accepts two axes in metres; the objects they return violate
  the invariant of the specification.
\<close>

theorem C1_create_accepts_any_units:
  "CartesianCS_create ex_setProperties (Some []) ex_latitude ex_longitude =
     Inr (ex_cs CartesianCS [ex_latitude, ex_longitude]) \<and>
   \<not> spec_CartesianCS_invariant example_Externals
       (ex_cs CartesianCS [ex_latitude, ex_longitude]) \<and>
   EllipsoidalCS_create ex_setProperties (Some []) ex_easting ex_northing =
     Inr (ex_cs EllipsoidalCS [ex_easting, ex_northing]) \<and>
   \<not> spec_EllipsoidalCS_invariant example_Externals
       (ex_cs EllipsoidalCS [ex_easting, ex_northing])"
  by (simp add: CartesianCS_create_def EllipsoidalCS_create_def make_CoordinateSystem_example
      spec_CartesianCS_invariant_def spec_EllipsoidalCS_invariant_def example_axisList
      example_units)

text \<open>
  Claim C1, amended: the \<^verbatim>\<open>create\<close> functions of \<^verbatim>\<open>CartesianCS\<close> and \<^verbatim>\<open>EllipsoidalCS\<close> do not
  examine the units or the directions of the axes. A call fails only when setting the
  properties fails, and then with the exception of \<^verbatim>\<open>setProperties\<close>; otherwise it returns
  an object of the requested class whose axis list is exactly the two or three axes
  given, in the order given. So every accepted system has 2 or 3 axes, and nothing is
  guaranteed about the kinds of their units.
\<close>

theorem C1_create_fails_only_on_properties:
  "(setProperties p = Inr installed \<longrightarrow>
      (\<exists>cs. CartesianCS_create setProperties p a1 a2 = Inr cs \<and>
            axisList cs = [a1, a2] \<and> kind cs = CartesianCS) \<and>
      (\<exists>cs. CartesianCS_create3 setProperties p a1 a2 a3 = Inr cs \<and>
            axisList cs = [a1, a2, a3] \<and> kind cs = CartesianCS) \<and>
      (\<exists>cs. EllipsoidalCS_create setProperties p a1 a2 = Inr cs \<and>
            axisList cs = [a1, a2] \<and> kind cs = EllipsoidalCS) \<and>
      (\<exists>cs. EllipsoidalCS_create3 setProperties p a1 a2 a3 = Inr cs \<and>
            axisList cs = [a1, a2, a3] \<and> kind cs = EllipsoidalCS)) \<and>
   (setProperties p = Inl e \<longrightarrow>
      CartesianCS_create setProperties p a1 a2 = Inl e \<and>
      CartesianCS_create3 setProperties p a1 a2 a3 = Inl e \<and>
      EllipsoidalCS_create setProperties p a1 a2 = Inl e \<and>
      EllipsoidalCS_create3 setProperties p a1 a2 a3 = Inl e)"
  by (simp add: CartesianCS_create_def CartesianCS_create3_def EllipsoidalCS_create_def
      EllipsoidalCS_create3_def make_CoordinateSystem_Inr make_CoordinateSystem_Inl)

theorem C1_create_fails_only_on_properties_witness:
  "ex_setProperties (Some []) = Inr (named []) \<and>
   CartesianCS_create3 ex_setProperties (Some []) ex_latitude ex_longitude ex_height =
     Inr (ex_cs CartesianCS [ex_latitude, ex_longitude, ex_height]) \<and>
   ex_setProperties None = Inl (std_exception ''Invalid value type for name'') \<and>
   CartesianCS_create ex_setProperties None ex_easting ex_northing =
     Inl (std_exception ''Invalid value type for name'')"
proof -
  have ok: "ex_setProperties (Some []) = Inr (named [])"
    by (simp add: ex_setProperties_def)
  have bad: "ex_setProperties None = Inl (std_exception ''Invalid value type for name'')"
    by (simp add: ex_setProperties_def)
  have built: "CartesianCS_create3 ex_setProperties (Some []) ex_latitude ex_longitude ex_height =
     Inr (ex_cs CartesianCS [ex_latitude, ex_longitude, ex_height])"
    by (simp add: CartesianCS_create3_def make_CoordinateSystem_example)
  from C1_create_fails_only_on_properties
         [of ex_setProperties None "named []" ex_easting ex_northing ex_height
             "std_exception ''Invalid value type for name''"] bad
  have failed: "CartesianCS_create ex_setProperties None ex_easting ex_northing =
     Inl (std_exception ''Invalid value type for name'')"
    by simp
  from ok built bad failed show ?thesis by simp
qed

section \<open>Equivalence of axes\<close>

text \<open>
  Claim C2: for two axes compared under the criterion EQUIVALENT,
  \<^verbatim>\<open>CoordinateSystemAxis::isEquivalentTo\<close> is true if and only if the directions are
  equal and the units are equal. The name, the identifiers and the abbreviation of an
  axis have no influence under EQUIVALENT; under STRICT the comparison of the identified
  object and of the abbreviation is required in addition.
\<close>

theorem C2_axis_equivalent_iff_direction_and_unit:
  "CoordinateSystemAxis_isEquivalentTo E a (AxisObject b) EQUIVALENT =
     (direction a = direction b \<and> unit_eq E (unit a) (unit b)) \<and>
   CoordinateSystemAxis_isEquivalentTo E
       (a\<lparr>nameStr := n, identifiers := ids, abbreviation := ab\<rparr>) (AxisObject b) EQUIVALENT =
     CoordinateSystemAxis_isEquivalentTo E a (AxisObject b) EQUIVALENT \<and>
   CoordinateSystemAxis_isEquivalentTo E a (AxisObject b) STRICT =
     (direction a = direction b \<and> unit_eq E (unit a) (unit b) \<and>
      IdentifiedObject_isEquivalentTo E (IdentifiedObject.truncate a)
        (IdentifiedObject.truncate b) STRICT \<and>
      abbreviation a = abbreviation b)"
  by (auto simp add: CoordinateSystemAxis_isEquivalentTo_def)

section \<open>Axis order classification\<close>

text \<open>
  Claim C3: for an ellipsoidal coordinate system with 2 or 3 axes (as every factory
  builds it), \<^verbatim>\<open>axisOrder()\<close> returns LAT_NORTH_LONG_EAST exactly when the axes are
  directed (north, east), LAT_NORTH_LONG_EAST_HEIGHT_UP exactly when they are directed
  (north, east, up), LONG_EAST_LAT_NORTH exactly when they are directed (east, north),
  LONG_EAST_LAT_NORTH_HEIGHT_UP exactly when they are directed (east, north, up), and
  OTHER in every other case; no axis is read out of range.
\<close>

theorem C3_axisOrder_classification:
  assumes "length (axisList cs) = 2 \<or> length (axisList cs) = 3"
  shows "axisOrder cs \<noteq> None \<and>
    (axisOrder cs = Some LAT_NORTH_LONG_EAST) =
       (map direction (axisList cs) = [NORTH, EAST]) \<and>
    (axisOrder cs = Some LAT_NORTH_LONG_EAST_HEIGHT_UP) =
       (map direction (axisList cs) = [NORTH, EAST, UP]) \<and>
    (axisOrder cs = Some LONG_EAST_LAT_NORTH) =
       (map direction (axisList cs) = [EAST, NORTH]) \<and>
    (axisOrder cs = Some LONG_EAST_LAT_NORTH_HEIGHT_UP) =
       (map direction (axisList cs) = [EAST, NORTH, UP]) \<and>
    (axisOrder cs = Some OTHER) =
       (map direction (axisList cs) \<notin>
          {[NORTH, EAST], [NORTH, EAST, UP], [EAST, NORTH], [EAST, NORTH, UP]})"
  using assms length_2_cases[of "axisList cs"] length_3_cases[of "axisList cs"]
  by (auto simp add: axisOrder_def Let_def)

theorem C3_axisOrder_classification_witness:
  "EllipsoidalCS_create3 ex_setProperties (Some []) ex_latitude ex_longitude ex_height =
     Inr (ex_cs EllipsoidalCS [ex_latitude, ex_longitude, ex_height]) \<and>
   axisOrder (ex_cs EllipsoidalCS [ex_latitude, ex_longitude, ex_height])
     = Some LAT_NORTH_LONG_EAST_HEIGHT_UP \<and>
   axisOrder (ex_cs EllipsoidalCS [ex_longitude, ex_latitude])
     = Some LONG_EAST_LAT_NORTH \<and>
   axisOrder (ex_cs EllipsoidalCS [ex_latitude, ex_latitude]) = Some OTHER"
  using C3_axisOrder_classification
          [of "ex_cs EllipsoidalCS [ex_latitude, ex_longitude, ex_height]"]
        C3_axisOrder_classification
          [of "ex_cs EllipsoidalCS [ex_longitude, ex_latitude]"]
        C3_axisOrder_classification
          [of "ex_cs EllipsoidalCS [ex_latitude, ex_latitude]"]
  by (simp add: EllipsoidalCS_create3_def make_CoordinateSystem_example example_axisList
      example_directions)

section \<open>The loops of the coordinate system export\<close>

lemma axes_loop_length:
  "length (axes_loop E f w n d k xs) = length xs"
  by (induction xs arbitrary: k) (simp_all add: Let_def)

lemma axes_loop_nth:
  "i < length xs \<Longrightarrow>
   axes_loop E f w n d k xs ! i =
     CoordinateSystemAxis_exportToWKT E f (if w \<and> n > 1 then k + int i else 0) d (xs ! i)"
proof (induction xs arbitrary: k i)
  case Nil
  then show ?case by simp
next
  case (Cons x xs)
  show ?case
  proof (cases i)
    case 0
    then show ?thesis by (simp add: Let_def)
  next
    case (Suc j)
    with Cons.prems have "j < length xs" by simp
    from Cons.IH[OF this, of "k + 1"] Suc show ?thesis
      by (simp add: Let_def add.assoc)
  qed
qed

lemma filter_is_AXIS_axes_loop:
  "filter is_AXIS (axes_loop E f w n d k xs) = axes_loop E f w n d k xs"
  by (induction xs arbitrary: k)
     (simp_all add: Let_def CoordinateSystemAxis_exportToWKT_def)

lemma filter_is_UnitWKT_axes_loop:
  "filter is_UnitWKT (axes_loop E f w n d k xs) = []"
  by (induction xs arbitrary: k)
     (simp_all add: Let_def CoordinateSystemAxis_exportToWKT_def)

lemma open_anonymous_axes_loop:
  "concat (map open_anonymous (axes_loop E f w n d k xs)) = axes_loop E f w n d k xs"
  by (induction xs arbitrary: k)
     (simp_all add: Let_def CoordinateSystemAxis_exportToWKT_def)

lemma unit_loop_rest:
  "unit_loop E xs (u, b, False) = (u, b \<and> list_all (\<lambda>a. unit_eq E u (unit a)) xs, False)"
  by (induction xs arbitrary: b) (auto simp add: Let_def)

text \<open>
  The first loop leaves the unit of the first axis, and in \<^verbatim>\<open>bAllSameUnit\<close> whether every
  later axis has a unit equal to it.
\<close>

lemma unit_loop_first:
  "xs \<noteq> [] \<Longrightarrow>
   unit_loop E xs (u, True, True) = (unit (hd xs), units_equal_to_first E xs, False)"
  by (cases xs) (simp_all add: Let_def unit_loop_rest units_equal_to_first_def)

lemma outputAxisOrder_pushOutputUnit:
  "outputAxisOrder (pushOutputUnit b f) = outputAxisOrder f"
  by (simp add: pushOutputUnit_def)

lemma outputUnit_pushOutputUnit: "outputUnit (pushOutputUnit b f) = b"
  by (simp add: pushOutputUnit_def outputUnit_def)

lemma outputCSUnitOnlyOnceIfSame_pushOutputUnit:
  "outputCSUnitOnlyOnceIfSame (pushOutputUnit b f) = outputCSUnitOnlyOnceIfSame f"
  by (simp add: pushOutputUnit_def)

lemma popOutputUnit_pushOutputUnit: "popOutputUnit (pushOutputUnit b f) = f"
  by (simp add: pushOutputUnit_def popOutputUnit_def)

lemma AXIS_nodes_export:
  "AXIS_nodes (fst (CoordinateSystem_exportToWKT E f cs)) =
     axes_loop E
       (pushOutputUnit (version f = WKT2 \<and>
          (\<not> fst (snd (unit_loop E (axisList cs) (unit_NONE E, True, True))) \<or>
           \<not> outputCSUnitOnlyOnceIfSame f)) f)
       (version f = WKT2) (length (axisList cs))
       (length (axisList cs) = 3 \<and>
             nameStr (axisList cs ! 0) = AxisName_Latitude E \<and>
             nameStr (axisList cs ! 1) = AxisName_Longitude E \<and>
             nameStr (axisList cs ! 2) = AxisName_Ellipsoidal_height E)
       1 (axisList cs)"
  by (simp add: CoordinateSystem_exportToWKT_def AXIS_nodes_def Let_def split_beta
      filter_is_AXIS_axes_loop open_anonymous_axes_loop)

lemma CS_level_units_export:
  "CS_level_units (fst (CoordinateSystem_exportToWKT E f cs)) =
     (if version f = WKT2 \<and> axisList cs \<noteq> [] \<and>
         fst (snd (unit_loop E (axisList cs) (unit_NONE E, True, True))) \<and>
         outputCSUnitOnlyOnceIfSame f
      then [UnitWKT (fst (unit_loop E (axisList cs) (unit_NONE E, True, True))) None] else [])"
  by (simp add: CoordinateSystem_exportToWKT_def CS_level_units_def Let_def split_beta
      filter_is_UnitWKT_axes_loop open_anonymous_axes_loop
      outputCSUnitOnlyOnceIfSame_pushOutputUnit)

lemma export_WKT2_second:
  "version f = WKT2 \<Longrightarrow>
   fst (CoordinateSystem_exportToWKT E f cs) ! 1 =
       Node None False (AXIS_nodes (fst (CoordinateSystem_exportToWKT E f cs)) @
                        CS_level_units (fst (CoordinateSystem_exportToWKT E f cs)))"
  by (simp add: CoordinateSystem_exportToWKT_def AXIS_nodes_def CS_level_units_def Let_def
      split_beta filter_is_AXIS_axes_loop filter_is_UnitWKT_axes_loop)

lemma ORDER_children_export:
  "ORDER_children (CoordinateSystemAxis_exportToWKT E f k d a) =
     (if outputAxisOrder f \<and> k > 0 then [Node (Some ORDER) False [AddInt k]] else [])"
  by (simp add: ORDER_children_def CoordinateSystemAxis_exportToWKT_def Let_def
      Meridian_exportToWKT_def split: option.splits)

lemma UNIT_children_export:
  "UNIT_children (CoordinateSystemAxis_exportToWKT E f k d a) =
     (if outputUnit f \<and> unit_type E (unit a) \<noteq> NONE then [UnitWKT (unit a) None] else [])"
  by (simp add: UNIT_children_def CoordinateSystemAxis_exportToWKT_def Let_def
      Meridian_exportToWKT_def split: option.splits)

lemma string_children_export:
  "filter is_AddString (children (CoordinateSystemAxis_exportToWKT E f k d a)) =
     [AddString (axisDir E (version f = WKT2) a)]"
  by (simp add: CoordinateSystemAxis_exportToWKT_def Let_def
      Meridian_exportToWKT_def split: option.splits)

text \<open>
  The AXIS node at position \<open>i\<close> of the output is the export of the axis at position \<open>i\<close>
  of the axis list, with the order number \<open>i + 1\<close> or \<open>0\<close>.
\<close>

lemma AXIS_node_of_axis:
  assumes "i < length (axisList cs)"
  shows "\<exists>b d. AXIS_nodes (fst (CoordinateSystem_exportToWKT E f cs)) ! i =
     CoordinateSystemAxis_exportToWKT E (pushOutputUnit b f)
       (if version f = WKT2 \<and> 1 < length (axisList cs) then int i + 1 else 0) d
       (axisList cs ! i)"
proof -
  let ?b = "version f = WKT2 \<and>
          (\<not> fst (snd (unit_loop E (axisList cs) (unit_NONE E, True, True))) \<or>
           \<not> outputCSUnitOnlyOnceIfSame f)"
  let ?d = "length (axisList cs) = 3 \<and>
             nameStr (axisList cs ! 0) = AxisName_Latitude E \<and>
             nameStr (axisList cs ! 1) = AxisName_Longitude E \<and>
             nameStr (axisList cs ! 2) = AxisName_Ellipsoidal_height E"
  have "AXIS_nodes (fst (CoordinateSystem_exportToWKT E f cs)) ! i =
     CoordinateSystemAxis_exportToWKT E (pushOutputUnit ?b f)
       (if version f = WKT2 \<and> 1 < length (axisList cs) then int i + 1 else 0) ?d
       (axisList cs ! i)"
    using assms by (simp add: AXIS_nodes_export axes_loop_nth add.commute)
  then show ?thesis by (intro exI)
qed

lemma AXIS_node_of_axis_WKT2:
  assumes "version f = WKT2" and "i < length (axisList cs)"
  shows "\<exists>d. AXIS_nodes (fst (CoordinateSystem_exportToWKT E f cs)) ! i =
     CoordinateSystemAxis_exportToWKT E
       (pushOutputUnit (\<not> units_equal_to_first E (axisList cs) \<or>
                        \<not> outputCSUnitOnlyOnceIfSame f) f)
       (if 1 < length (axisList cs) then int i + 1 else 0) d
       (axisList cs ! i)"
proof -
  from assms(2) have ne: "axisList cs \<noteq> []" by auto
  let ?d = "length (axisList cs) = 3 \<and>
             nameStr (axisList cs ! 0) = AxisName_Latitude E \<and>
             nameStr (axisList cs ! 1) = AxisName_Longitude E \<and>
             nameStr (axisList cs ! 2) = AxisName_Ellipsoidal_height E"
  have "AXIS_nodes (fst (CoordinateSystem_exportToWKT E f cs)) ! i =
     CoordinateSystemAxis_exportToWKT E
       (pushOutputUnit (\<not> units_equal_to_first E (axisList cs) \<or>
                        \<not> outputCSUnitOnlyOnceIfSame f) f)
       (if 1 < length (axisList cs) then int i + 1 else 0) ?d
       (axisList cs ! i)"
    using assms
    by (simp add: AXIS_nodes_export axes_loop_nth unit_loop_first[OF ne] add.commute)
  then show ?thesis by (intro exI)
qed

lemma ORDER_children_CS_export:
  assumes "i < length (axisList cs)"
  shows "ORDER_children (AXIS_nodes (fst (CoordinateSystem_exportToWKT E f cs)) ! i) =
       (if version f = WKT2 \<and> outputAxisOrder f \<and> 1 < length (axisList cs)
        then [Node (Some ORDER) False [AddInt (int i + 1)]] else [])"
  using assms
  by (simp add: AXIS_nodes_export axes_loop_nth ORDER_children_export
      outputAxisOrder_pushOutputUnit)

lemma UNIT_children_CS_export:
  assumes "version f = WKT2" and "i < length (axisList cs)"
  shows "UNIT_children (AXIS_nodes (fst (CoordinateSystem_exportToWKT E f cs)) ! i) =
       (if (\<not> units_equal_to_first E (axisList cs) \<or> \<not> outputCSUnitOnlyOnceIfSame f) \<and>
           unit_type E (unit (axisList cs ! i)) \<noteq> NONE
        then [UnitWKT (unit (axisList cs ! i)) None] else []) \<and>
     CS_level_units (fst (CoordinateSystem_exportToWKT E f cs)) =
       (if \<not> units_equal_to_first E (axisList cs) \<or> \<not> outputCSUnitOnlyOnceIfSame f
        then [] else [UnitWKT (unit (hd (axisList cs))) None])"
proof -
  from assms(2) have ne: "axisList cs \<noteq> []" by auto
  note loop = unit_loop_first[OF ne, of E "unit_NONE E"]
  have A: "UNIT_children (AXIS_nodes (fst (CoordinateSystem_exportToWKT E f cs)) ! i) =
       (if (\<not> units_equal_to_first E (axisList cs) \<or> \<not> outputCSUnitOnlyOnceIfSame f) \<and>
           unit_type E (unit (axisList cs ! i)) \<noteq> NONE
        then [UnitWKT (unit (axisList cs ! i)) None] else [])"
    using assms
    by (simp add: AXIS_nodes_export loop axes_loop_nth UNIT_children_export
        outputUnit_pushOutputUnit)
  have B: "CS_level_units (fst (CoordinateSystem_exportToWKT E f cs)) =
       (if \<not> units_equal_to_first E (axisList cs) \<or> \<not> outputCSUnitOnlyOnceIfSame f
        then [] else [UnitWKT (unit (hd (axisList cs))) None])"
    using assms(1) ne by (simp add: CS_level_units_export loop)
  from A B show ?thesis by simp
qed

section \<open>The ORDER node of an axis\<close>

text \<open>
  Claim C4, as stated, fails: with a WKT2 formatter whose axis order output is switched
  off (the simplified conventions), the two AXIS nodes of a two-axis system carry no
  ORDER node.
\<close>

theorem C4_no_ORDER_when_outputAxisOrder_off:
  "EllipsoidalCS_create ex_setProperties (Some []) ex_latitude ex_longitude =
     Inr (ex_cs EllipsoidalCS [ex_latitude, ex_longitude]) \<and>
   version ex_WKT2_SIMPLIFIED = WKT2 \<and>
   length (axisList (ex_cs EllipsoidalCS [ex_latitude, ex_longitude])) = 2 \<and>
   ORDER_children (AXIS_nodes (fst (CoordinateSystem_exportToWKT example_Externals
       ex_WKT2_SIMPLIFIED (ex_cs EllipsoidalCS [ex_latitude, ex_longitude]))) ! 0) = [] \<and>
   ORDER_children (AXIS_nodes (fst (CoordinateSystem_exportToWKT example_Externals
       ex_WKT2_SIMPLIFIED (ex_cs EllipsoidalCS [ex_latitude, ex_longitude]))) ! 1) = []"
  using ORDER_children_CS_export[of 0 "ex_cs EllipsoidalCS [ex_latitude, ex_longitude]"
          example_Externals ex_WKT2_SIMPLIFIED]
        ORDER_children_CS_export[of 1 "ex_cs EllipsoidalCS [ex_latitude, ex_longitude]"
          example_Externals ex_WKT2_SIMPLIFIED]
  by (simp add: ex_WKT2_SIMPLIFIED_def example_axisList EllipsoidalCS_create_def
      make_CoordinateSystem_example)

text \<open>
  Claim C4, amended: when a coordinate system is exported, it writes one AXIS node per
  axis, in the order of the axis list: the AXIS node at position \<open>i\<close> is the export of
  the axis at position \<open>i\<close>. That node carries the node ORDER[i], \<open>i\<close> being the 1-based
  position of the axis, if and only if the version is WKT2, the formatter's
  \<^verbatim>\<open>outputAxisOrder()\<close> setting is on and the system has more than one axis; otherwise it
  carries no ORDER node. In particular WKT1 output contains no ORDER node, and neither
  does an axis exported on its own.
\<close>

theorem C4_ORDER_iff_WKT2_outputAxisOrder_and_several_axes:
  assumes "i < length (axisList cs)"
  shows "length (AXIS_nodes (fst (CoordinateSystem_exportToWKT E f cs))) = length (axisList cs) \<and>
     (\<exists>b d. AXIS_nodes (fst (CoordinateSystem_exportToWKT E f cs)) ! i =
        CoordinateSystemAxis_exportToWKT E (pushOutputUnit b f)
          (if version f = WKT2 \<and> 1 < length (axisList cs) then int i + 1 else 0) d
          (axisList cs ! i)) \<and>
     ORDER_children (AXIS_nodes (fst (CoordinateSystem_exportToWKT E f cs)) ! i) =
       (if version f = WKT2 \<and> outputAxisOrder f \<and> 1 < length (axisList cs)
        then [Node (Some ORDER) False [AddInt (int i + 1)]] else []) \<and>
     ORDER_children (CoordinateSystemAxis_exportToWKT0 E f (axisList cs ! i)) = []"
proof -
  have n: "length (AXIS_nodes (fst (CoordinateSystem_exportToWKT E f cs))) =
      length (axisList cs)"
    by (simp add: AXIS_nodes_export axes_loop_length)
  have alone: "ORDER_children (CoordinateSystemAxis_exportToWKT0 E f (axisList cs ! i)) = []"
    by (simp add: ORDER_children_export CoordinateSystemAxis_exportToWKT0_def)
  from n AXIS_node_of_axis[OF assms, of E f] ORDER_children_CS_export[OF assms, of E f] alone
  show ?thesis by (intro conjI)
qed

theorem C4_ORDER_iff_WKT2_outputAxisOrder_and_several_axes_witness:
  "(1::nat) < length (axisList (ex_cs EllipsoidalCS [ex_latitude, ex_longitude])) \<and>
   ORDER_children (AXIS_nodes (fst (CoordinateSystem_exportToWKT example_Externals ex_WKT2
       (ex_cs EllipsoidalCS [ex_latitude, ex_longitude]))) ! 1)
     = [Node (Some ORDER) False [AddInt 2]] \<and>
   ORDER_children (AXIS_nodes (fst (CoordinateSystem_exportToWKT example_Externals ex_WKT1_GDAL
       (ex_cs EllipsoidalCS [ex_latitude, ex_longitude]))) ! 1) = []"
proof -
  have two: "1 < length (axisList (ex_cs EllipsoidalCS [ex_latitude, ex_longitude]))"
    by (simp add: example_axisList)
  note wkt2 = C4_ORDER_iff_WKT2_outputAxisOrder_and_several_axes
      [OF two, of example_Externals ex_WKT2, THEN conjunct2, THEN conjunct2, THEN conjunct1]
  note wkt1 = C4_ORDER_iff_WKT2_outputAxisOrder_and_several_axes
      [OF two, of example_Externals ex_WKT1_GDAL, THEN conjunct2, THEN conjunct2,
       THEN conjunct1]
  from two wkt2 wkt1 show ?thesis
    by (simp add: ex_WKT2_def ex_WKT1_GDAL_def example_axisList)
qed

section \<open>The unit nodes of a coordinate system\<close>

text \<open>
  Claim C5, as stated, fails in its second part: in a system whose axes have differing
  units, an axis whose unit has the type NONE is written without a unit node.
\<close>

theorem C5_axis_of_unit_type_NONE_has_no_unit_node:
  "OrdinalCS_create ex_setProperties (Some []) [ex_easting, ex_unitless] =
     Inr (ex_cs OrdinalCS [ex_easting, ex_unitless]) \<and>
   version ex_WKT2 = WKT2 \<and>
   \<not> unit_eq example_Externals (unit ex_easting) (unit ex_unitless) \<and>
   axisList (ex_cs OrdinalCS [ex_easting, ex_unitless]) = [ex_easting, ex_unitless] \<and>
   UNIT_children (AXIS_nodes (fst (CoordinateSystem_exportToWKT example_Externals ex_WKT2
       (ex_cs OrdinalCS [ex_easting, ex_unitless]))) ! 1) = []"
proof -
  have v: "version ex_WKT2 = WKT2"
    by (simp add: ex_WKT2_def)
  have two: "1 < length (axisList (ex_cs OrdinalCS [ex_easting, ex_unitless]))"
    by (simp add: example_axisList)
  from UNIT_children_CS_export[OF v two, of example_Externals] v
  show ?thesis
    by (simp add: example_axisList example_units OrdinalCS_create_def
        make_CoordinateSystem_example)
qed

text \<open>
  Claim C5, amended: a coordinate system with at least one axis is exported to WKT2. The
  AXIS node at position \<open>i\<close> is the export of the axis at position \<open>i\<close>. If the unit of
  every axis after the first is equal to the unit of the first axis (the comparison that
  the export makes) and the formatter is set to output the unit of the system only once,
  then no AXIS node carries a unit node and the unit of the first axis is written once,
  after the AXIS nodes and at their level. Otherwise (a unit differs from the first, or
  the setting is off) nothing is written after the AXIS nodes and each AXIS node carries
  the unit node of its own axis, unless the type of that unit is NONE, in which case it
  carries none.
\<close>

theorem C5_unit_once_or_per_axis:
  assumes "version f = WKT2" and "i < length (axisList cs)"
  shows "(\<exists>d. AXIS_nodes (fst (CoordinateSystem_exportToWKT E f cs)) ! i =
        CoordinateSystemAxis_exportToWKT E
          (pushOutputUnit (\<not> units_equal_to_first E (axisList cs) \<or>
                           \<not> outputCSUnitOnlyOnceIfSame f) f)
          (if 1 < length (axisList cs) then int i + 1 else 0) d
          (axisList cs ! i)) \<and>
     UNIT_children (AXIS_nodes (fst (CoordinateSystem_exportToWKT E f cs)) ! i) =
       (if (\<not> units_equal_to_first E (axisList cs) \<or> \<not> outputCSUnitOnlyOnceIfSame f) \<and>
           unit_type E (unit (axisList cs ! i)) \<noteq> NONE
        then [UnitWKT (unit (axisList cs ! i)) None] else []) \<and>
     CS_level_units (fst (CoordinateSystem_exportToWKT E f cs)) =
       (if \<not> units_equal_to_first E (axisList cs) \<or> \<not> outputCSUnitOnlyOnceIfSame f
        then [] else [UnitWKT (unit (hd (axisList cs))) None]) \<and>
     fst (CoordinateSystem_exportToWKT E f cs) ! 1 =
       Node None False (AXIS_nodes (fst (CoordinateSystem_exportToWKT E f cs)) @
                        CS_level_units (fst (CoordinateSystem_exportToWKT E f cs)))"
  using AXIS_node_of_axis_WKT2[OF assms, of E] UNIT_children_CS_export[OF assms, of E]
        export_WKT2_second[OF assms(1), of E cs]
  by (intro conjI) simp_all

theorem C5_unit_once_or_per_axis_witness:
  "version ex_WKT2_SIMPLIFIED = WKT2 \<and>
   UNIT_children (AXIS_nodes (fst (CoordinateSystem_exportToWKT example_Externals
       ex_WKT2_SIMPLIFIED (ex_cs EllipsoidalCS [ex_latitude, ex_longitude]))) ! 0) = [] \<and>
   CS_level_units (fst (CoordinateSystem_exportToWKT example_Externals
       ex_WKT2_SIMPLIFIED (ex_cs EllipsoidalCS [ex_latitude, ex_longitude])))
     = [UnitWKT DEGREE None] \<and>
   UNIT_children (AXIS_nodes (fst (CoordinateSystem_exportToWKT example_Externals
       ex_WKT2_SIMPLIFIED (ex_cs EllipsoidalCS [ex_latitude, ex_longitude, ex_height]))) ! 2)
     = [UnitWKT METRE None]"
proof -
  have v: "version ex_WKT2_SIMPLIFIED = WKT2"
    by (simp add: ex_WKT2_SIMPLIFIED_def)
  have once: "outputCSUnitOnlyOnceIfSame ex_WKT2_SIMPLIFIED"
    by (simp add: ex_WKT2_SIMPLIFIED_def)
  have two: "0 < length (axisList (ex_cs EllipsoidalCS [ex_latitude, ex_longitude]))"
    by (simp add: example_axisList)
  have three:
    "2 < length (axisList (ex_cs EllipsoidalCS [ex_latitude, ex_longitude, ex_height]))"
    by (simp add: example_axisList)
  note a = C5_unit_once_or_per_axis[OF v two, of example_Externals, THEN conjunct2]
  note b = C5_unit_once_or_per_axis[OF v three, of example_Externals, THEN conjunct2]
  from a b show ?thesis
    by (simp add: v once example_axisList example_units units_equal_to_first_def)
qed

section \<open>The direction keyword of an axis in WKT1\<close>

lemma toupper_north: "toupper ''north'' = ''NORTH''"
  by code_simp

lemma toupper_forward: "toupper ''forward'' = ''FORWARD''"
  by code_simp

text \<open>
  Claim C9: when an axis is exported to WKT1, the direction keyword written (the only
  unquoted string of the AXIS node) is NORTH for an axis whose direction is geocentricZ;
  for any other direction it is the upper-cased name of the direction if that is a
  registered WKT1 direction, and OTHER if it is not.
\<close>

theorem C9_WKT1_direction_keyword:
  assumes "version f = WKT1"
  shows "filter is_AddString (children (CoordinateSystemAxis_exportToWKT E f order d a)) =
     [AddString
       (if direction a = GEOCENTRIC_Z then AxisDirectionWKT1_NORTH E
        else if toupper (toString E (direction a)) \<in> AxisDirectionWKT1_keys E
        then toupper (toString E (direction a))
        else AxisDirectionWKT1_OTHER E)]"
  using assms
  by (simp add: string_children_export axisDir_def AxisDirectionWKT1_valueOf_def Let_def)

theorem C9_WKT1_direction_keyword_witness:
  "version ex_WKT1_GDAL = WKT1 \<and>
   filter is_AddString (children (CoordinateSystemAxis_exportToWKT example_Externals
       ex_WKT1_GDAL 0 False ex_latitude)) = [AddString ''NORTH''] \<and>
   filter is_AddString (children (CoordinateSystemAxis_exportToWKT example_Externals
       ex_WKT1_GDAL 0 False (ex_latitude\<lparr>direction := GEOCENTRIC_Z\<rparr>))) = [AddString ''NORTH''] \<and>
   filter is_AddString (children (CoordinateSystemAxis_exportToWKT example_Externals
       ex_WKT1_GDAL 0 False (ex_latitude\<lparr>direction := FORWARD\<rparr>))) = [AddString ''OTHER'']"
  using C9_WKT1_direction_keyword[of ex_WKT1_GDAL example_Externals 0 False ex_latitude]
        C9_WKT1_direction_keyword[of ex_WKT1_GDAL example_Externals 0 False
          "ex_latitude\<lparr>direction := GEOCENTRIC_Z\<rparr>"]
        C9_WKT1_direction_keyword[of ex_WKT1_GDAL example_Externals 0 False
          "ex_latitude\<lparr>direction := FORWARD\<rparr>"]
  by (simp add: ex_WKT1_GDAL_def example_Externals_def ex_latitude_def
      example_toString_def toupper_north toupper_forward)

section \<open>The C interface: creation from text\<close>




section \<open>The C interface: cached exports\<close>

lemma proj_obj_as_wkt_cached:
  "mapWKTString pj t = Some s \<Longrightarrow> proj_obj_as_wkt c e pj t lg = (Inr (Some s), pj, lg)"
  by (simp add: proj_obj_as_wkt_def)

lemma proj_obj_as_wkt_Some:
  "proj_obj_as_wkt c e pj t lg = (Inr (Some s), pj', lg') \<Longrightarrow> mapWKTString pj' t = Some s"
  by (auto simp add: proj_obj_as_wkt_def Let_def
      split: option.splits sum.splits cpp_exception.splits)

lemma proj_obj_as_wkt_None:
  "proj_obj_as_wkt c e pj t lg = (Inr None, pj', lg') \<Longrightarrow>
   pj' = pj \<and> fst (proj_obj_as_wkt c e pj t lg2) = Inr None"
  by (auto simp add: proj_obj_as_wkt_def Let_def
      split: option.splits sum.splits cpp_exception.splits)

lemma proj_obj_as_wkt_keeps:
  "mapWKTString pj t = Some s \<Longrightarrow>
   mapWKTString (fst (snd (proj_obj_as_wkt c e pj t2 lg))) t = Some s"
  by (auto simp add: proj_obj_as_wkt_def Let_def
      split: option.splits sum.splits cpp_exception.splits)

lemma proj_obj_as_proj_string_cached:
  "mapPROJString pj t = Some s \<Longrightarrow>
   proj_obj_as_proj_string c e pj t lg = (Inr (Some s), pj, lg)"
  by (simp add: proj_obj_as_proj_string_def)

lemma proj_obj_as_proj_string_Some:
  "proj_obj_as_proj_string c e pj t lg = (Inr (Some s), pj', lg') \<Longrightarrow>
   mapPROJString pj' t = Some s"
  by (auto simp add: proj_obj_as_proj_string_def Let_def
      split: option.splits sum.splits cpp_exception.splits)

lemma proj_obj_as_proj_string_None:
  "proj_obj_as_proj_string c e pj t lg = (Inr None, pj', lg') \<Longrightarrow>
   pj' = pj \<and> fst (proj_obj_as_proj_string c e pj t lg2) = Inr None"
  by (auto simp add: proj_obj_as_proj_string_def Let_def
      split: option.splits sum.splits cpp_exception.splits)

lemma proj_obj_as_proj_string_keeps:
  "mapPROJString pj t = Some s \<Longrightarrow>
   mapPROJString (fst (snd (proj_obj_as_proj_string c e pj t2 lg))) t = Some s"
  by (auto simp add: proj_obj_as_proj_string_def Let_def
      split: option.splits sum.splits cpp_exception.splits)

lemma proj_obj_as_wkt_twice:
  assumes "proj_obj_as_wkt c e pj t lg = (Inr r, pj', lg')"
  shows "fst (proj_obj_as_wkt c e pj' t lg') = Inr r \<and>
         (r \<noteq> None \<longrightarrow>
            (\<forall>c2 e2 lg2. proj_obj_as_wkt c2 e2 pj' t lg2 = (Inr r, pj', lg2)) \<and>
            (\<forall>c2 e2 lg2 t2. mapWKTString (fst (snd (proj_obj_as_wkt c2 e2 pj' t2 lg2))) t = r))"
proof (cases r)
  case None
  with assms proj_obj_as_wkt_None[of c e pj t lg pj' lg' lg'] show ?thesis by simp
next
  case (Some s)
  with assms have "mapWKTString pj' t = Some s" by (simp add: proj_obj_as_wkt_Some)
  then show ?thesis
    using Some by (simp add: proj_obj_as_wkt_cached proj_obj_as_wkt_keeps)
qed

lemma proj_obj_as_proj_string_twice:
  assumes "proj_obj_as_proj_string c e pj t lg = (Inr r, pj', lg')"
  shows "fst (proj_obj_as_proj_string c e pj' t lg') = Inr r \<and>
         (r \<noteq> None \<longrightarrow>
            (\<forall>c2 e2 lg2. proj_obj_as_proj_string c2 e2 pj' t lg2 = (Inr r, pj', lg2)) \<and>
            (\<forall>c2 e2 lg2 t2.
               mapPROJString (fst (snd (proj_obj_as_proj_string c2 e2 pj' t2 lg2))) t = r))"
proof (cases r)
  case None
  with assms proj_obj_as_proj_string_None[of c e pj t lg pj' lg' lg'] show ?thesis by simp
next
  case (Some s)
  with assms have "mapPROJString pj' t = Some s" by (simp add: proj_obj_as_proj_string_Some)
  then show ?thesis
    using Some by (simp add: proj_obj_as_proj_string_cached proj_obj_as_proj_string_keeps)
qed

text \<open>
  Claim C7: for a fixed object and a fixed requested type, two successive calls of
  \<^verbatim>\<open>proj_obj_as_wkt\<close> (of \<^verbatim>\<open>proj_obj_as_proj_string\<close>) with the same arguments return the
  same string. A successful result is cached on the object: every later call with that
  type returns it unchanged and leaves the object and the log as they are, whatever the
  export would compute, and calls with other types do not remove it.
\<close>

theorem C7_exports_are_cached_and_repeatable:
  assumes "proj_obj_as_wkt c e pj t lg = (Inr r, pj', lg')"
      and "proj_obj_as_proj_string pc pe ppj pt plg = (Inr pr, ppj', plg')"
  shows "fst (proj_obj_as_wkt c e pj' t lg') = Inr r \<and>
         (r \<noteq> None \<longrightarrow>
            (\<forall>c2 e2 lg2. proj_obj_as_wkt c2 e2 pj' t lg2 = (Inr r, pj', lg2)) \<and>
            (\<forall>c2 e2 lg2 t2. mapWKTString (fst (snd (proj_obj_as_wkt c2 e2 pj' t2 lg2))) t = r)) \<and>
         fst (proj_obj_as_proj_string pc pe ppj' pt plg') = Inr pr \<and>
         (pr \<noteq> None \<longrightarrow>
            (\<forall>c2 e2 lg2. proj_obj_as_proj_string c2 e2 ppj' pt lg2 = (Inr pr, ppj', lg2)) \<and>
            (\<forall>c2 e2 lg2 t2.
               mapPROJString (fst (snd (proj_obj_as_proj_string c2 e2 ppj' t2 lg2))) pt = pr))"
  using proj_obj_as_wkt_twice[OF assms(1)] proj_obj_as_proj_string_twice[OF assms(2)]
  by blast

lemma ex_as_wkt_first:
  "proj_obj_as_wkt Some ex_exportToWKT ex_EPSG_4326 PJ_WKT2_2018 [] =
     (Inr (Some ''ELLIPSOID[WGS 84]''),
      ex_EPSG_4326\<lparr>mapWKTString := [PJ_WKT2_2018 \<mapsto> ''ELLIPSOID[WGS 84]'']\<rparr>, [])"
  by (simp add: proj_obj_as_wkt_def ex_exportToWKT_def ex_EPSG_4326_def new_PJ_OBJ_def)

lemma ex_as_proj_string_first:
  "proj_obj_as_proj_string Some ex_exportToPROJString ex_EPSG_4326 PJ_PROJ_5 [] =
     (Inr (Some ''+proj=longlat +ellps=WGS 84''),
      ex_EPSG_4326\<lparr>mapPROJString := [PJ_PROJ_5 \<mapsto> ''+proj=longlat +ellps=WGS 84'']\<rparr>, [])"
  by (simp add: proj_obj_as_proj_string_def ex_exportToPROJString_def ex_EPSG_4326_def
      new_PJ_OBJ_def)

theorem C7_exports_are_cached_and_repeatable_witness:
  "fst (proj_obj_as_wkt Some ex_exportToWKT ex_EPSG_4326 PJ_WKT2_2018 [])
     = Inr (Some ''ELLIPSOID[WGS 84]'') \<and>
   fst (proj_obj_as_wkt Some ex_exportToWKT
          (ex_EPSG_4326\<lparr>mapWKTString := [PJ_WKT2_2018 \<mapsto> ''ELLIPSOID[WGS 84]'']\<rparr>)
          PJ_WKT2_2018 [])
     = Inr (Some ''ELLIPSOID[WGS 84]'') \<and>
   fst (proj_obj_as_proj_string Some ex_exportToPROJString
          (ex_EPSG_4326\<lparr>mapPROJString := [PJ_PROJ_5 \<mapsto> ''+proj=longlat +ellps=WGS 84'']\<rparr>)
          PJ_PROJ_5 [])
     = Inr (Some ''+proj=longlat +ellps=WGS 84'')"
proof -
  note twice = C7_exports_are_cached_and_repeatable[OF ex_as_wkt_first ex_as_proj_string_first]
  have first: "fst (proj_obj_as_wkt Some ex_exportToWKT ex_EPSG_4326 PJ_WKT2_2018 [])
     = Inr (Some ''ELLIPSOID[WGS 84]'')"
    by (simp add: ex_as_wkt_first)
  show ?thesis
    by (rule conjI[OF first conjI[OF twice[THEN conjunct1]
          twice[THEN conjunct2, THEN conjunct2, THEN conjunct1]]])
qed

section \<open>The C interface: identifiers\<close>

text \<open>
  Claim C10: \<^verbatim>\<open>proj_obj_get_id_code\<close> and \<^verbatim>\<open>proj_obj_get_id_auth_name\<close> never read outside
  the vector of identifiers. For an index that is negative, or greater than or equal to
  the number of identifiers, they return \<^verbatim>\<open>NULL\<close>; for an index in range they return the
  code, respectively the code space (\<^verbatim>\<open>NULL\<close> if it is absent), of the identifier at that
  index. An object that is not an identified object gives \<^verbatim>\<open>NULL\<close> and an error message.
\<close>

theorem C10_identifier_access_in_bounds:
  "proj_obj_get_id_code cast pj index lg \<noteq> None \<and>
   proj_obj_get_id_auth_name cast pj index lg \<noteq> None \<and>
   (cast (obj pj) = None \<longrightarrow>
      (\<exists>lg'. proj_obj_get_id_code cast pj index lg = Some (None, lg')) \<and>
      (\<exists>lg'. proj_obj_get_id_auth_name cast pj index lg = Some (None, lg'))) \<and>
   (cast (obj pj) = Some identifiable \<longrightarrow>
      (sint index < 0 \<or> int (length (identifiers identifiable)) \<le> sint index \<longrightarrow>
         proj_obj_get_id_code cast pj index lg = Some (None, lg) \<and>
         proj_obj_get_id_auth_name cast pj index lg = Some (None, lg)) \<and>
      (0 \<le> sint index \<and> sint index < int (length (identifiers identifiable)) \<longrightarrow>
         proj_obj_get_id_code cast pj index lg =
           Some (Some (code (identifiers identifiable ! nat (sint index))), lg) \<and>
         proj_obj_get_id_auth_name cast pj index lg =
           Some (codeSpace (identifiers identifiable ! nat (sint index)), lg)))"
  by (auto simp add: proj_obj_get_id_code_def proj_obj_get_id_auth_name_def vector_at_def
      split: option.splits)

theorem C10_identifier_access_in_bounds_witness:
  "proj_obj_get_id_code Some ex_EPSG_4326 0 [] = Some (Some ''4326'', []) \<and>
   proj_obj_get_id_auth_name Some ex_EPSG_4326 0 [] = Some (Some ''EPSG'', []) \<and>
   proj_obj_get_id_code Some ex_EPSG_4326 (- 1) [] = Some (None, []) \<and>
   proj_obj_get_id_auth_name Some ex_EPSG_4326 (- 1) [] = Some (None, []) \<and>
   proj_obj_get_id_code Some ex_EPSG_4326 1 [] = Some (None, []) \<and>
   proj_obj_get_id_auth_name Some ex_EPSG_4326 1 [] = Some (None, [])"
  using C10_identifier_access_in_bounds[of Some ex_EPSG_4326 0 "[]" "obj ex_EPSG_4326"]
        C10_identifier_access_in_bounds[of Some ex_EPSG_4326 "- 1" "[]" "obj ex_EPSG_4326"]
        C10_identifier_access_in_bounds[of Some ex_EPSG_4326 1 "[]" "obj ex_EPSG_4326"]
  by (simp add: ex_EPSG_4326_def new_PJ_OBJ_def)

section \<open>The C interface: ellipsoid parameters\<close>

text \<open>
  Claim C8: for every ellipsoid object \<^verbatim>\<open>proj_obj_ellipsoid_get_parameters\<close> succeeds, and
  it reports the semi-minor axis as computed exactly when the definition of the ellipsoid
  carries no semi-minor axis; in that case the semi-minor value returned is the one
  derived from the semi-major axis and the form, and otherwise it is the semi-minor axis
  of the definition.
\<close>

theorem C8_semi_minor_computed_flag:
  assumes "cast_Ellipsoid (obj ellipsoid) = Some e"
  shows "fst (proj_obj_ellipsoid_get_parameters cast_Ellipsoid D ellipsoid hasA hasB hasC hasF lg)
           = TRUE \<and>
         snd (snd (proj_obj_ellipsoid_get_parameters cast_Ellipsoid D ellipsoid
                     hasA hasB hasC hasF lg)) = lg \<and>
         pIsSemiMinorComputed
           (fst (snd (proj_obj_ellipsoid_get_parameters cast_Ellipsoid D ellipsoid
                        hasA hasB True hasF lg))) =
           Some (if \<exists>b. form e = SemiMinor b then FALSE else TRUE) \<and>
         pSemiMinorMetre
           (fst (snd (proj_obj_ellipsoid_get_parameters cast_Ellipsoid D ellipsoid
                        hasA True hasC hasF lg))) =
           Some (case form e of
                   SemiMinor b \<Rightarrow> b
                 | _ \<Rightarrow> derive_semi_minor D (semi_major e) (form e)) \<and>
         TRUE \<noteq> FALSE"
  using assms
  by (auto simp add: proj_obj_ellipsoid_get_parameters_def Let_def TRUE_def FALSE_def
      semiMinorAxis_def computeSemiMinorAxis_def split: EllipsoidForm.splits)

theorem C8_semi_minor_computed_flag_witness:
  "fst (proj_obj_ellipsoid_get_parameters Some ex_Derivations (new_PJ_OBJ (0::nat) ex_WGS84)
          True True True True []) = 1 \<and>
   pIsSemiMinorComputed
     (fst (snd (proj_obj_ellipsoid_get_parameters Some ex_Derivations
                  (new_PJ_OBJ (0::nat) ex_WGS84) True True True True []))) = Some 1 \<and>
   pSemiMinorMetre
     (fst (snd (proj_obj_ellipsoid_get_parameters Some ex_Derivations
                  (new_PJ_OBJ (0::nat) ex_WGS84) True True True True []))) = Some 6356734"
  using C8_semi_minor_computed_flag[of Some "new_PJ_OBJ (0::nat) ex_WGS84" ex_WGS84
          ex_Derivations True True True True "[]"]
  by (simp add: new_PJ_OBJ_def ex_WGS84_def ex_Derivations_def TRUE_def)

end
